theory Spec2Isabelle
  imports Complex_Main "HOL-Library.Multiset"
begin

section \<open>JavaScript values\<close>

text \<open>
  The designer of \<^verbatim>\<open>script.js\<close> computes with JavaScript numbers. They are modelled
  as the real numbers together with \<open>NaN\<close>: rounding of doubles and overflow to an infinity
  are not part of the model, so every identity below is one of real arithmetic.
  A variable that was never assigned, and a property that an object does not have, is
  \<open>undefined\<close>: \<open>None\<close> in a field of type \<open>'a option\<close>.
\<close>

datatype jsnum = NaN | Num real

text \<open>\<open>ToNumber\<close> of a number or of \<open>undefined\<close>, which is \<open>NaN\<close>.\<close>

fun ToNumber :: "jsnum option \<Rightarrow> jsnum" where
  "ToNumber None = NaN"
| "ToNumber (Some n) = n"

text \<open>The operators \<^verbatim>\<open>*\<close>, \<^verbatim>\<open>+\<close>, \<^verbatim>\<open>-\<close> and \<^verbatim>\<open>/\<close>. A quotient with divisor zero
  would be an infinity or \<open>NaN\<close> in JavaScript; the model has \<open>NaN\<close> only, and no
  division of the source has a zero divisor (see \<open>autoLayout\<close> for the one by a length).\<close>

fun times_js :: "jsnum \<Rightarrow> jsnum \<Rightarrow> jsnum" where
  "times_js (Num a) (Num b) = Num (a * b)"
| "times_js _ _ = NaN"

fun plus_js :: "jsnum \<Rightarrow> jsnum \<Rightarrow> jsnum" where
  "plus_js (Num a) (Num b) = Num (a + b)"
| "plus_js _ _ = NaN"

fun minus_js :: "jsnum \<Rightarrow> jsnum \<Rightarrow> jsnum" where
  "minus_js (Num a) (Num b) = Num (a - b)"
| "minus_js _ _ = NaN"

fun divide_js :: "jsnum \<Rightarrow> jsnum \<Rightarrow> jsnum" where
  "divide_js (Num a) (Num b) = (if b = 0 then NaN else Num (a / b))"
| "divide_js _ _ = NaN"

fun Math_cos :: "jsnum \<Rightarrow> jsnum" where
  "Math_cos (Num a) = Num (cos a)"
| "Math_cos NaN = NaN"

fun Math_sin :: "jsnum \<Rightarrow> jsnum" where
  "Math_sin (Num a) = Num (sin a)"
| "Math_sin NaN = NaN"

fun Math_floor :: "jsnum \<Rightarrow> jsnum" where
  "Math_floor (Num a) = Num (of_int \<lfloor>a\<rfloor>)"
| "Math_floor NaN = NaN"

text \<open>\<^verbatim>\<open>Math.round\<close> rounds a half towards plus infinity: it is \<open>floor (a + 1/2)\<close>.\<close>

fun Math_round :: "jsnum \<Rightarrow> jsnum" where
  "Math_round (Num a) = Num (of_int \<lfloor>a + 1 / 2\<rfloor>)"
| "Math_round NaN = NaN"

definition Math_PI :: jsnum where
  "Math_PI = Num pi"

text \<open>What the code stores in a property of a page element.\<close>

datatype jsval = JUndefined | JNumber jsnum | JString string

fun string_val :: "string option \<Rightarrow> jsval" where
  "string_val None = JUndefined"
| "string_val (Some s) = JString s"

fun number_val :: "jsnum option \<Rightarrow> jsval" where
  "number_val None = JUndefined"
| "number_val (Some n) = JNumber n"

datatype error = SyntaxError | TypeError

section \<open>The page and the designer\<close>

text \<open>
  The page is the map from element ids to elements that \<^verbatim>\<open>document.getElementById\<close>
  reads: an id without an element gives \<open>null\<close>, and reading or writing a property of
  \<open>null\<close> throws a \<open>TypeError\<close>. Of an element the model keeps the three properties the
  code touches, as the code assigned them.
\<close>

record element =
  elem_value :: jsval
  textContent :: jsval
  checked :: bool

record Vector3 =
  vx :: jsnum
  vy :: jsnum
  vz :: jsnum

text \<open>The group that \<open>createSystem\<close> returns: a box mesh at the position, coloured by
  the kind, a label sprite two units above it, and the kind in \<open>userData\<close>. The canvas
  and the texture of the label are drawn by the platform and are left out.\<close>

record system_group =
  userData_type :: string
  mesh_position :: Vector3
  mesh_color :: "nat option"
  sprite_position :: Vector3

text \<open>
  The fields of \<^verbatim>\<open>SpaceHabitatDesigner\<close> that the operations below read or write, and
  the page. \<open>systemsGroup\<close> holds the children of the scene group of the same name. The
  scene, camera, renderer, lights and habitat meshes belong to the rendering library and
  are not modelled.
\<close>

record designer =
  currentShape :: "string option"
  currentRadius :: "jsnum option"
  currentHeight :: "jsnum option"
  systems :: "system_group list"
  systemsGroup :: "system_group list"
  document :: "string \<rightharpoonup> element"

text \<open>A statement either completes with a value or throws; in both cases the designer is
  left as it was at that moment.\<close>

type_synonym 'a completion = "(error + 'a) \<times> designer"

definition and_then :: "'a completion \<Rightarrow> ('a \<Rightarrow> designer \<Rightarrow> 'b completion) \<Rightarrow> 'b completion" where
  "and_then c f = (case c of (Inl e, st) \<Rightarrow> (Inl e, st) | (Inr a, st) \<Rightarrow> f a st)"

definition set_textContent :: "string \<Rightarrow> jsval \<Rightarrow> designer \<Rightarrow> unit completion" where
  "set_textContent ident v st =
     (case document st ident of
        None \<Rightarrow> (Inl TypeError, st)
      | Some e \<Rightarrow> (Inr (), st\<lparr>document := (document st)(ident \<mapsto> e\<lparr>textContent := v\<rparr>)\<rparr>))"

definition set_value :: "string \<Rightarrow> jsval \<Rightarrow> designer \<Rightarrow> unit completion" where
  "set_value ident v st =
     (case document st ident of
        None \<Rightarrow> (Inl TypeError, st)
      | Some e \<Rightarrow> (Inr (), st\<lparr>document := (document st)(ident \<mapsto> e\<lparr>elem_value := v\<rparr>)\<rparr>))"

definition systemIds :: "string list" where
  "systemIds = [''life-support'', ''power'', ''waste'', ''thermal'', ''communications'',
                ''medical'', ''sleep'', ''exercise'', ''food'', ''stowage'']"

definition systemColors :: "string \<rightharpoonup> nat" where
  "systemColors = map_of
     [(''life-support'', 0xff6b6b), (''power'', 0xffd93d), (''waste'', 0x6bcf7f),
      (''thermal'', 0x4d96ff), (''communications'', 0x9b59b6), (''medical'', 0xe74c3c),
      (''sleep'', 0x3498db), (''exercise'', 0xf39c12), (''food'', 0x1abc9c),
      (''stowage'', 0x95a5a6)]"

section \<open>Placing systems\<close>

definition createSystem :: "string \<Rightarrow> Vector3 \<Rightarrow> system_group" where
  "createSystem systemType position =
     \<lparr>userData_type = systemType,
      mesh_position = position,
      mesh_color = systemColors systemType,
      sprite_position = \<lparr>vx = vx position, vy = plus_js (vy position) (Num 2), vz = vz position\<rparr>\<rparr>"

definition updateSystemsCount :: "designer \<Rightarrow> unit completion" where
  "updateSystemsCount st =
     set_textContent ''systems-count'' (JNumber (Num (real (length (systems st))))) st"

definition clearSystems :: "designer \<Rightarrow> unit completion" where
  "clearSystems st = updateSystemsCount (st\<lparr>systemsGroup := [], systems := []\<rparr>)"

text \<open>\<^verbatim>\<open>systemIds.filter(id => document.getElementById(id).checked)\<close>: the callback
  throws at the first id without an element.\<close>

fun filter_checked :: "(string \<rightharpoonup> element) \<Rightarrow> string list \<Rightarrow> error + string list" where
  "filter_checked d [] = Inr []"
| "filter_checked d (i # ids) =
     (case d i of
        None \<Rightarrow> Inl TypeError
      | Some e \<Rightarrow>
          (case filter_checked d ids of
             Inl err \<Rightarrow> Inl err
           | Inr r \<Rightarrow> Inr (if checked e then i # r else r)))"

definition getEnabledSystems :: "designer \<Rightarrow> error + string list" where
  "getEnabledSystems st = filter_checked (document st) systemIds"

text \<open>
  The body of the \<^verbatim>\<open>forEach\<close> of \<open>autoLayout\<close> for one system and its index, and the
  loop. \<open>rnd index\<close> is the value that \<^verbatim>\<open>Math.random()\<close> returns in the iteration
  \<open>index\<close>.
\<close>

definition place_system ::
  "(nat \<Rightarrow> real) \<Rightarrow> jsnum \<Rightarrow> jsnum \<Rightarrow> jsnum \<Rightarrow> string \<Rightarrow> nat \<Rightarrow> system_group" where
  "place_system rnd radius height angleStep systemType index =
     (let angle = times_js (Num (real index)) angleStep;
          x = times_js (Math_cos angle) radius;
          z = times_js (Math_sin angle) radius;
          y = times_js (times_js (minus_js (Num (rnd index)) (Num 0.5)) height) (Num 0.5)
      in createSystem systemType \<lparr>vx = x, vy = y, vz = z\<rparr>)"

fun place_each ::
  "(nat \<Rightarrow> real) \<Rightarrow> jsnum \<Rightarrow> jsnum \<Rightarrow> jsnum \<Rightarrow> nat \<Rightarrow> string list \<Rightarrow> designer \<Rightarrow> designer" where
  "place_each rnd radius height angleStep index [] st = st"
| "place_each rnd radius height angleStep index (systemType # rest) st =
     (let system = place_system rnd radius height angleStep systemType index
      in place_each rnd radius height angleStep (Suc index) rest
           (st\<lparr>systemsGroup := systemsGroup st @ [system], systems := systems st @ [system]\<rparr>))"

definition autoLayout :: "(nat \<Rightarrow> real) \<Rightarrow> designer \<Rightarrow> unit completion" where
  "autoLayout rnd st =
     and_then (clearSystems st) (\<lambda>_ st1.
       case getEnabledSystems st1 of
         Inl e \<Rightarrow> (Inl e, st1)
       | Inr enabledSystems \<Rightarrow>
           if length enabledSystems = 0 then (Inr (), st1)
           else
             (let radius = times_js (ToNumber (currentRadius st1)) (Num 0.8);
                  height = times_js (ToNumber (currentHeight st1)) (Num 0.8);
                  angleStep = divide_js (times_js (Num 2) Math_PI)
                                (Num (real (length enabledSystems)))
              in updateSystemsCount
                   (place_each rnd radius height angleStep 0 enabledSystems st1)))"

section \<open>Habitat metrics\<close>

text \<open>
  The \<^verbatim>\<open>switch\<close> of \<open>updateHabitatInfo\<close>: the locals \<open>volume\<close> and \<open>surfaceArea\<close>,
  which stay \<open>undefined\<close> when no case matches the shape.
\<close>

definition habitat_volume :: "designer \<Rightarrow> jsnum option" where
  "habitat_volume st =
     (let currentRadius = ToNumber (currentRadius st); currentHeight = ToNumber (currentHeight st)
      in if currentShape st = Some ''cylinder'' then
           Some (times_js (times_js (times_js Math_PI currentRadius) currentRadius) currentHeight)
         else if currentShape st = Some ''sphere'' then
           Some (times_js (times_js (times_js (times_js (divide_js (Num 4) (Num 3)) Math_PI)
                   currentRadius) currentRadius) currentRadius)
         else if currentShape st = Some ''cube'' then
           Some (times_js (times_js (times_js (times_js currentRadius (Num 2)) currentHeight)
                   currentRadius) (Num 2))
         else if currentShape st = Some ''torus'' then
           (let R = currentRadius; r = times_js currentRadius (Num 0.3)
            in Some (times_js (times_js (times_js (times_js (times_js (Num 2) Math_PI) Math_PI) R) r) r))
         else None)"

definition habitat_surfaceArea :: "designer \<Rightarrow> jsnum option" where
  "habitat_surfaceArea st =
     (let currentRadius = ToNumber (currentRadius st); currentHeight = ToNumber (currentHeight st)
      in if currentShape st = Some ''cylinder'' then
           Some (plus_js
                  (times_js (times_js (times_js (Num 2) Math_PI) currentRadius) currentHeight)
                  (times_js (times_js (times_js (Num 2) Math_PI) currentRadius) currentRadius))
         else if currentShape st = Some ''sphere'' then
           Some (times_js (times_js (times_js (Num 4) Math_PI) currentRadius) currentRadius)
         else if currentShape st = Some ''cube'' then
           Some (times_js (Num 2)
                  (plus_js
                    (plus_js
                      (times_js (times_js currentRadius (Num 2)) currentHeight)
                      (times_js (times_js (times_js currentRadius (Num 2)) currentRadius) (Num 2)))
                    (times_js (times_js currentHeight currentRadius) (Num 2))))
         else if currentShape st = Some ''torus'' then
           (let R = currentRadius; r = times_js currentRadius (Num 0.3)
            in Some (times_js (times_js (times_js (times_js (Num 4) Math_PI) Math_PI) R) r))
         else None)"

definition crewCapacity :: "designer \<Rightarrow> jsnum" where
  "crewCapacity st = Math_floor (divide_js (ToNumber (habitat_volume st)) (Num 20))"

definition updateHabitatInfo :: "designer \<Rightarrow> unit completion" where
  "updateHabitatInfo st =
     (let volume = habitat_volume st; surfaceArea = habitat_surfaceArea st;
          crewCapacity = crewCapacity st
      in and_then (set_textContent ''volume-display'' (JNumber (Math_round (ToNumber volume))) st)
           (\<lambda>_ st1.
         and_then (set_textContent ''surface-display'' (JNumber (Math_round (ToNumber surfaceArea))) st1)
           (\<lambda>_ st2.
         set_textContent ''crew-display'' (JNumber crewCapacity) st2)))"

text \<open>
  The \<^verbatim>\<open>switch\<close> of \<open>createHabitat\<close>: the geometry built for the shape, with the
  arguments of its constructor as the code passes them. The local \<open>geometry\<close> stays
  \<open>undefined\<close> when no case matches the shape.
\<close>

datatype geometry =
    CylinderGeometry "jsnum option" "jsnum option" "jsnum option" nat
  | SphereGeometry "jsnum option" nat nat
  | BoxGeometry jsnum "jsnum option" jsnum
  | TorusGeometry "jsnum option" jsnum nat nat

definition habitat_geometry :: "designer \<Rightarrow> geometry option" where
  "habitat_geometry st =
     (if currentShape st = Some ''cylinder'' then
        Some (CylinderGeometry (currentRadius st) (currentRadius st) (currentHeight st) 32)
      else if currentShape st = Some ''sphere'' then
        Some (SphereGeometry (currentRadius st) 32 32)
      else if currentShape st = Some ''cube'' then
        Some (BoxGeometry (times_js (ToNumber (currentRadius st)) (Num 2)) (currentHeight st)
                (times_js (ToNumber (currentRadius st)) (Num 2)))
      else if currentShape st = Some ''torus'' then
        Some (TorusGeometry (currentRadius st)
                (times_js (ToNumber (currentRadius st)) (Num 0.3)) 16 100)
      else None)"

text \<open>
  \<open>createHabitat\<close> builds the mesh and the wireframe of the geometry and then updates the
  info display. The meshes belong to the scene of the rendering library and are not kept
  in the designer of the model. With an \<open>undefined\<close> geometry the call
  \<^verbatim>\<open>new THREE.WireframeGeometry(geometry)\<close> reads a property of \<open>undefined\<close> and throws
  a \<open>TypeError\<close>, before the info display is updated.
\<close>

definition createHabitat :: "designer \<Rightarrow> unit completion" where
  "createHabitat st =
     (case habitat_geometry st of
        None \<Rightarrow> (Inl TypeError, st)
      | Some geometry \<Rightarrow> updateHabitatInfo st)"

section \<open>Saving and loading a layout\<close>

text \<open>
  The object that \<open>saveLayout\<close> builds and hands to \<^verbatim>\<open>JSON.stringify\<close>, and that
  \<open>loadLayoutData\<close> receives from \<^verbatim>\<open>JSON.parse\<close>. Each property is either absent
  or has the type of the layout file format; the text of the file and the download belong
  to the platform.
\<close>

record layout =
  layout_shape :: "string option"
  layout_radius :: "jsnum option"
  layout_height :: "jsnum option"
  layout_systems :: "string list option"
  layout_timestamp :: "string option"

text \<open>What \<^verbatim>\<open>JSON.parse\<close> returns: \<open>null\<close>, or a value whose properties can be read.
  A value that is no object (a number, a string, an array) has none of the four
  properties that \<open>loadLayoutData\<close> reads.\<close>

datatype json = JNull | JValue layout

definition saveLayout :: "string \<Rightarrow> designer \<Rightarrow> error + layout" where
  "saveLayout now st =
     (case getEnabledSystems st of
        Inl e \<Rightarrow> Inl e
      | Inr enabled \<Rightarrow>
          Inr \<lparr>layout_shape = currentShape st,
               layout_radius = currentRadius st,
               layout_height = currentHeight st,
               layout_systems = Some enabled,
               layout_timestamp = Some now\<rparr>)"

text \<open>The \<^verbatim>\<open>forEach\<close> of \<open>loadLayoutData\<close> over the known ids:
  \<^verbatim>\<open>document.getElementById(id).checked = layout.systems.includes(id)\<close>.\<close>

fun check_each :: "layout \<Rightarrow> string list \<Rightarrow> designer \<Rightarrow> unit completion" where
  "check_each lay [] st = (Inr (), st)"
| "check_each lay (i # ids) st =
     (case document st i of
        None \<Rightarrow> (Inl TypeError, st)
      | Some e \<Rightarrow>
          (case layout_systems lay of
             None \<Rightarrow> (Inl TypeError, st)
           | Some included \<Rightarrow>
               check_each lay ids
                 (st\<lparr>document := (document st)(i \<mapsto> e\<lparr>checked := (i \<in> set included)\<rparr>)\<rparr>)))"

definition loadLayoutData :: "(nat \<Rightarrow> real) \<Rightarrow> json \<Rightarrow> designer \<Rightarrow> unit completion" where
  "loadLayoutData rnd j st =
     (case j of
        JNull \<Rightarrow> (Inl TypeError, st)
      | JValue lay \<Rightarrow>
          and_then (set_value ''shape-type'' (string_val (layout_shape lay)) st) (\<lambda>_ st1.
          and_then (set_value ''radius'' (number_val (layout_radius lay)) st1) (\<lambda>_ st2.
          and_then (set_value ''height'' (number_val (layout_height lay)) st2) (\<lambda>_ st3.
          and_then (set_textContent ''radius-value'' (number_val (layout_radius lay)) st3) (\<lambda>_ st4.
          and_then (set_textContent ''height-value'' (number_val (layout_height lay)) st4) (\<lambda>_ st5.
          and_then (check_each lay systemIds
                      (st5\<lparr>currentShape := layout_shape lay,
                           currentRadius := layout_radius lay,
                           currentHeight := layout_height lay\<rparr>)) (\<lambda>_ st6.
          and_then (createHabitat st6) (\<lambda>_ st7.
          autoLayout rnd st7))))))))"

text \<open>
  The \<^verbatim>\<open>reader.onload\<close> callback of \<open>loadLayout\<close> on the text of the chosen file.
  \<open>JSON_parse\<close> is the platform's parser, \<open>None\<close> where it throws a \<open>SyntaxError\<close>.
  The result is the error whose message the \<^verbatim>\<open>catch\<close> block shows in an alert, if
  any, and the designer afterwards.
\<close>

definition loadLayout_onload ::
  "(string \<Rightarrow> json option) \<Rightarrow> (nat \<Rightarrow> real) \<Rightarrow> string \<Rightarrow> designer \<Rightarrow> error option \<times> designer" where
  "loadLayout_onload JSON_parse rnd text st =
     (case JSON_parse text of
        None \<Rightarrow> (Some SyntaxError, st)
      | Some j \<Rightarrow>
          (case loadLayoutData rnd j st of
             (Inl e, st') \<Rightarrow> (Some e, st')
           | (Inr _, st') \<Rightarrow> (None, st')))"

text \<open>A click on a checkbox of the page: the browser flips \<open>checked\<close>, then the
  \<^verbatim>\<open>change\<close> listener of \<open>setupEventListeners\<close> runs \<open>updateSystemsCount\<close>.\<close>

definition click_checkbox :: "string \<Rightarrow> designer \<Rightarrow> designer" where
  "click_checkbox ident st =
     (case document st ident of
        None \<Rightarrow> st
      | Some e \<Rightarrow>
          snd (updateSystemsCount
                 (st\<lparr>document := (document st)(ident \<mapsto> e\<lparr>checked := \<not> checked e\<rparr>)\<rparr>)))"

text \<open>The fields that the constructor sets before it builds the scene.\<close>

definition new_designer :: "(string \<rightharpoonup> element) \<Rightarrow> designer" where
  "new_designer page =
     \<lparr>currentShape = Some ''cylinder'',
      currentRadius = Some (Num 10),
      currentHeight = Some (Num 15),
      systems = [],
      systemsGroup = [],
      document = page\<rparr>"

section \<open>Notions used to state the properties\<close>

text \<open>The list of systems that the loop of \<open>autoLayout\<close> appends, from index \<open>index\<close> on.\<close>

fun placed ::
  "(nat \<Rightarrow> real) \<Rightarrow> jsnum \<Rightarrow> jsnum \<Rightarrow> jsnum \<Rightarrow> nat \<Rightarrow> string list \<Rightarrow> system_group list" where
  "placed rnd radius height angleStep index [] = []"
| "placed rnd radius height angleStep index (systemType # rest) =
     place_system rnd radius height angleStep systemType index
       # placed rnd radius height angleStep (Suc index) rest"

text \<open>The ids that \<open>autoLayout\<close> looks up, and all ids that the modelled operations look up.\<close>

definition layout_ids :: "string list" where
  "layout_ids = ''systems-count'' # systemIds"

definition page_ids :: "string list" where
  "page_ids = [''shape-type'', ''radius'', ''height'', ''radius-value'', ''height-value'',
               ''volume-display'', ''surface-display'', ''crew-display''] @ layout_ids"

definition has_elements :: "string list \<Rightarrow> designer \<Rightarrow> bool" where
  "has_elements ids st \<longleftrightarrow> set ids \<subseteq> dom (document st)"

text \<open>The distance of a position from the vertical axis, in the x-z plane.\<close>

definition radial_distance :: "Vector3 \<Rightarrow> jsnum" where
  "radial_distance p =
     (case (vx p, vz p) of (Num a, Num b) \<Rightarrow> Num (sqrt (a * a + b * b)) | _ \<Rightarrow> NaN)"

text \<open>An example page: it has an element for every id in \<open>page_ids\<close>, and of the checkboxes
  exactly those in \<open>enabled\<close> are checked.\<close>

definition page_with :: "string list \<Rightarrow> (string \<rightharpoonup> element)" where
  "page_with enabled =
     (\<lambda>i. if i \<in> set page_ids
          then Some \<lparr>elem_value = JUndefined, textContent = JUndefined, checked = (i \<in> set enabled)\<rparr>
          else None)"

text \<open>\<open>text_update st st'\<close>: the designer \<open>st'\<close> differs from \<open>st\<close> at most in the value and the
  text of page elements.\<close>

definition text_update :: "designer \<Rightarrow> designer \<Rightarrow> bool" where
  "text_update st st' \<longleftrightarrow>
     st' = st\<lparr>document := document st'\<rparr> \<and>
     dom (document st') = dom (document st) \<and>
     (\<forall>i. map_option checked (document st' i) = map_option checked (document st i))"

section \<open>Facts about the operations\<close>

lemma length_placed [simp]: "length (placed rnd R H a i ks) = length ks"
  by (induction ks arbitrary: i) simp_all

lemma nth_placed:
  "j < length ks \<Longrightarrow> placed rnd R H a i ks ! j = place_system rnd R H a (ks ! j) (i + j)"
proof (induction ks arbitrary: i j)
  case Nil
  then show ?case by simp
next
  case (Cons k ks)
  then show ?case by (cases j) simp_all
qed

lemma place_each_fields:
  "systems (place_each rnd R H a i ks st) = systems st @ placed rnd R H a i ks"
  "systemsGroup (place_each rnd R H a i ks st) = systemsGroup st @ placed rnd R H a i ks"
  "document (place_each rnd R H a i ks st) = document st"
  "currentShape (place_each rnd R H a i ks st) = currentShape st"
  "currentRadius (place_each rnd R H a i ks st) = currentRadius st"
  "currentHeight (place_each rnd R H a i ks st) = currentHeight st"
  by (induction ks arbitrary: i st; simp add: Let_def)+

lemma filter_checked_total:
  "set ids \<subseteq> dom d \<Longrightarrow> filter_checked d ids = Inr (filter (\<lambda>i. checked (the (d i))) ids)"
  by (induction ids) auto

lemma filter_checked_Inr_dom:
  "filter_checked d ids = Inr ks \<Longrightarrow> set ids \<subseteq> dom d"
  by (induction ids arbitrary: ks) (auto split: option.splits sum.splits)

lemma filter_checked_same:
  "(\<And>i. i \<in> set ids \<Longrightarrow> d' i = d i) \<Longrightarrow> filter_checked d' ids = filter_checked d ids"
  by (induction ids) (auto split: option.splits sum.splits)

lemma systems_count_not_id: "''systems-count'' \<notin> set systemIds"
  by (simp add: systemIds_def)

lemma clearSystems_result:
  assumes cnt: "document st ''systems-count'' = Some e"
  shows "clearSystems st = (Inr (), st\<lparr>systemsGroup := [], systems := [],
      document := (document st)(''systems-count'' \<mapsto> e\<lparr>textContent := JNumber (Num 0)\<rparr>)\<rparr>)"
  using cnt by (simp add: clearSystems_def updateSystemsCount_def set_textContent_def)

lemma getEnabledSystems_count_update:
  "getEnabledSystems (st\<lparr>systemsGroup := g, systems := s,
      document := (document st)(''systems-count'' \<mapsto> e')\<rparr>) = getEnabledSystems st"
proof -
  have "filter_checked ((document st)(''systems-count'' \<mapsto> e')) systemIds
      = filter_checked (document st) systemIds"
  proof (rule filter_checked_same)
    fix i assume "i \<in> set systemIds"
    then have "i \<noteq> ''systems-count''" using systems_count_not_id by blast
    then show "((document st)(''systems-count'' \<mapsto> e')) i = document st i" by simp
  qed
  then show ?thesis by (simp add: getEnabledSystems_def)
qed

lemma autoLayout_result:
  assumes cnt: "document st ''systems-count'' = Some e"
    and en: "getEnabledSystems st = Inr ks"
  shows "autoLayout rnd st =
    (Inr (),
     st\<lparr>systemsGroup := placed rnd (times_js (ToNumber (currentRadius st)) (Num 0.8))
                             (times_js (ToNumber (currentHeight st)) (Num 0.8))
                             (divide_js (times_js (Num 2) Math_PI) (Num (real (length ks)))) 0 ks,
        systems := placed rnd (times_js (ToNumber (currentRadius st)) (Num 0.8))
                             (times_js (ToNumber (currentHeight st)) (Num 0.8))
                             (divide_js (times_js (Num 2) Math_PI) (Num (real (length ks)))) 0 ks,
        document := (document st)(''systems-count'' \<mapsto>
                        e\<lparr>textContent := JNumber (Num (real (length ks)))\<rparr>)\<rparr>)"
proof -
  let ?st1 = "st\<lparr>systemsGroup := [], systems := [],
      document := (document st)(''systems-count'' \<mapsto> e\<lparr>textContent := JNumber (Num 0)\<rparr>)\<rparr>"
  have c: "clearSystems st = (Inr (), ?st1)"
    by (rule clearSystems_result[OF cnt])
  have g: "getEnabledSystems ?st1 = Inr ks"
    using en by (simp only: getEnabledSystems_count_update)
  show ?thesis
  proof (cases "ks = []")
    case True
    then show ?thesis
      unfolding autoLayout_def and_then_def c using g by simp
  next
    case False
    then show ?thesis
      unfolding autoLayout_def and_then_def c using g
      by (simp add: Let_def updateSystemsCount_def
          set_textContent_def place_each_fields)
  qed
qed

lemma autoLayout_throws_without_count:
  assumes "document st ''systems-count'' = None"
  shows "autoLayout rnd st = (Inl TypeError, st\<lparr>systemsGroup := [], systems := []\<rparr>)"
  using assms
  by (simp add: autoLayout_def and_then_def clearSystems_def updateSystemsCount_def
      set_textContent_def)

lemma has_layout_elements:
  assumes "has_elements layout_ids st"
  shows "\<exists>e. document st ''systems-count'' = Some e"
    and "getEnabledSystems st = Inr (filter (\<lambda>i. checked (the (document st i))) systemIds)"
proof -
  from assms have a: "''systems-count'' \<in> dom (document st)" and b: "set systemIds \<subseteq> dom (document st)"
    by (auto simp: has_elements_def layout_ids_def)
  from a show "\<exists>e. document st ''systems-count'' = Some e" by blast
  from b show "getEnabledSystems st = Inr (filter (\<lambda>i. checked (the (document st i))) systemIds)"
    unfolding getEnabledSystems_def by (rule filter_checked_total)
qed

lemma place_system_fields:
  "userData_type (place_system rnd R' H' a' k i) = k"
  "mesh_position (place_system rnd (Num R) (Num H) (Num a) k i) =
     \<lparr>vx = Num (cos (real i * a) * R), vy = Num ((rnd i - 0.5) * H * 0.5), vz = Num (sin (real i * a) * R)\<rparr>"
  by (simp_all add: place_system_def createSystem_def Let_def)

lemma place_system_vy:
  "vy (mesh_position (place_system rnd R (Num H) a k i)) = Num ((rnd i - 0.5) * H * 0.5)"
  by (simp add: place_system_def createSystem_def Let_def)

lemma radial_circle: "sqrt (cos t * R * (cos t * R) + sin t * R * (sin t * R)) = \<bar>R\<bar>"
proof -
  have "cos t * R * (cos t * R) + sin t * R * (sin t * R)
      = R * R * (cos t * cos t) + R * R * (sin t * sin t)"
    by (simp only: mult_ac)
  also have "\<dots> = R * R * (cos t * cos t + sin t * sin t)"
    by (simp only: distrib_left)
  also have "\<dots> = R * R" by (simp only: sin_cos_squared_add3 mult_1_right)
  finally show ?thesis by (simp only: real_sqrt_abs2)
qed

lemma page_with_elements:
  "has_elements page_ids (st\<lparr>document := page_with en\<rparr>)"
  "has_elements layout_ids (st\<lparr>document := page_with en\<rparr>)"
  by (auto simp: has_elements_def page_with_def page_ids_def dom_def)

lemma page_with_new_designer:
  "has_elements page_ids (new_designer (page_with en))"
  "has_elements layout_ids (new_designer (page_with en))"
  by (auto simp: has_elements_def new_designer_def page_with_def page_ids_def dom_def)

lemma systemIds_in_page: "i \<in> set systemIds \<Longrightarrow> i \<in> set page_ids"
  by (simp add: page_ids_def layout_ids_def)

lemma getEnabledSystems_page_with:
  "document st = page_with en \<Longrightarrow>
   getEnabledSystems st = Inr (filter (\<lambda>i. i \<in> set en) systemIds)"
proof -
  assume d: "document st = page_with en"
  have "set systemIds \<subseteq> dom (page_with en)"
    using systemIds_in_page by (auto simp: page_with_def dom_def)
  then have "filter_checked (page_with en) systemIds
      = Inr (filter (\<lambda>i. checked (the (page_with en i))) systemIds)"
    by (rule filter_checked_total)
  also have "filter (\<lambda>i. checked (the (page_with en i))) systemIds = filter (\<lambda>i. i \<in> set en) systemIds"
    by (rule filter_cong) (simp_all add: page_with_def systemIds_in_page)
  finally show ?thesis by (simp add: getEnabledSystems_def d)
qed

lemma in_set_placed:
  assumes "p \<in> set (placed rnd R H a i ks)"
  shows "\<exists>j k. p = place_system rnd R H a k (i + j) \<and> j < length ks"
proof -
  from assms obtain j where j: "j < length ks" and p: "p = placed rnd R H a i ks ! j"
    by (auto simp: in_set_conv_nth)
  from p nth_placed[OF j, of rnd R H a i] have "p = place_system rnd R H a (ks ! j) (i + j)" by simp
  with j show ?thesis by blast
qed

lemma kinds_placed: "map userData_type (placed rnd R H a i ks) = ks"
  by (induction ks arbitrary: i) (simp_all add: place_system_fields(1))

lemma jitter_bounds:
  fixes u h :: real
  assumes "0 \<le> u" "u < 1" "0 < h"
  shows "- 0.2 * h \<le> (u - 0.5) * (h * 0.8) * 0.5" "(u - 0.5) * (h * 0.8) * 0.5 < 0.2 * h"
proof -
  have lo: "(u - 0.5) * (h * 0.8) * 0.5 = - 0.2 * h + u * (0.4 * h)"
    by (simp add: field_simps)
  have hi: "(u - 0.5) * (h * 0.8) * 0.5 = 0.2 * h - (1 - u) * (0.4 * h)"
    by (simp add: field_simps)
  have "0 \<le> u * (0.4 * h)" using assms by simp
  then show "- 0.2 * h \<le> (u - 0.5) * (h * 0.8) * 0.5" unfolding lo by linarith
  have "0 < (1 - u) * (0.4 * h)" using assms by simp
  then show "(u - 0.5) * (h * 0.8) * 0.5 < 0.2 * h" unfolding hi by linarith
qed

lemma filter_checked_same_checked:
  "(\<And>i. i \<in> set ids \<Longrightarrow> map_option checked (d' i) = map_option checked (d i)) \<Longrightarrow>
   filter_checked d' ids = filter_checked d ids"
proof (induction ids)
  case Nil
  then show ?case by simp
next
  case (Cons i ids)
  have rest: "filter_checked d' ids = filter_checked d ids"
    by (rule Cons.IH) (simp add: Cons.prems)
  have here: "map_option checked (d' i) = map_option checked (d i)"
    by (rule Cons.prems) simp
  show ?case
    using here rest by (cases "d i"; cases "d' i") (auto split: sum.splits)
qed

lemma click_checkbox_checked:
  "map_option checked (document (click_checkbox a st) i) =
     (if i = a then map_option Not (map_option checked (document st i))
      else map_option checked (document st i))"
  by (auto simp: click_checkbox_def updateSystemsCount_def set_textContent_def
      split: option.splits)

lemma fold_click_checked:
  "map_option checked (document (fold click_checkbox cs st) i) =
     map_option (\<lambda>c. c \<noteq> odd (count (mset cs) i)) (map_option checked (document st i))"
proof (induction cs arbitrary: st)
  case Nil
  then show ?case by (simp add: option.map_ident)
next
  case (Cons a cs)
  show ?case
    by (cases "document st i") (auto simp: Cons.IH click_checkbox_checked option.map_comp)
qed

lemma clicks_order_irrelevant:
  assumes "mset cs1 = mset cs2"
  shows "getEnabledSystems (fold click_checkbox cs1 st) = getEnabledSystems (fold click_checkbox cs2 st)"
  unfolding getEnabledSystems_def
  by (rule filter_checked_same_checked) (simp add: fold_click_checked assms)

lemma single_placed:
  "mesh_position (placed rnd (Num R) H (Num a) 0 [k] ! 0) =
     \<lparr>vx = Num R, vy = vy (mesh_position (place_system rnd (Num R) H (Num a) k 0)), vz = Num 0\<rparr>"
  by (simp add: place_system_def createSystem_def Let_def)

lemma text_update_refl: "text_update st st"
  by (simp add: text_update_def)

lemma text_update_trans: "text_update a b \<Longrightarrow> text_update b c \<Longrightarrow> text_update a c"
  unfolding text_update_def
  by (metis (no_types, lifting) designer.surjective designer.update_convs(6))

lemma text_update_fields:
  assumes "text_update st st'"
  shows "currentShape st' = currentShape st" "currentRadius st' = currentRadius st"
    "currentHeight st' = currentHeight st" "systems st' = systems st"
    "systemsGroup st' = systemsGroup st"
proof -
  from assms have e: "st' = st\<lparr>document := document st'\<rparr>" by (simp add: text_update_def)
  show "currentShape st' = currentShape st" by (subst e) simp
  show "currentRadius st' = currentRadius st" by (subst e) simp
  show "currentHeight st' = currentHeight st" by (subst e) simp
  show "systems st' = systems st" by (subst e) simp
  show "systemsGroup st' = systemsGroup st" by (subst e) simp
qed

lemma text_update_has_elements:
  "text_update st st' \<Longrightarrow> has_elements ids st \<Longrightarrow> has_elements ids st'"
  by (simp add: text_update_def has_elements_def)

lemma text_update_enabled:
  assumes "text_update st st'"
  shows "getEnabledSystems st' = getEnabledSystems st"
  unfolding getEnabledSystems_def
  by (rule filter_checked_same_checked) (use assms in \<open>simp add: text_update_def\<close>)

lemma set_value_ok:
  assumes "ident \<in> dom (document st)"
  shows "\<exists>st'. set_value ident v st = (Inr (), st') \<and> text_update st st'"
  using assms by (auto simp: set_value_def text_update_def)

lemma set_textContent_ok:
  assumes "ident \<in> dom (document st)"
  shows "\<exists>st'. set_textContent ident v st = (Inr (), st') \<and> text_update st st'"
  using assms by (auto simp: set_textContent_def text_update_def)

lemma and_then_ok:
  assumes "c = (Inr a, st1)"
  shows "and_then c f = f a st1"
  using assms by (simp add: and_then_def)

lemma page_ids_members:
  "''shape-type'' \<in> set page_ids" "''radius'' \<in> set page_ids" "''height'' \<in> set page_ids"
  "''radius-value'' \<in> set page_ids" "''height-value'' \<in> set page_ids"
  "''volume-display'' \<in> set page_ids" "''surface-display'' \<in> set page_ids"
  "''crew-display'' \<in> set page_ids" "''systems-count'' \<in> set page_ids"
  by (simp_all add: page_ids_def layout_ids_def)

lemma has_elements_member:
  "has_elements ids st \<Longrightarrow> i \<in> set ids \<Longrightarrow> i \<in> dom (document st)"
  by (auto simp: has_elements_def)

lemma has_elements_layout: "has_elements page_ids st \<Longrightarrow> has_elements layout_ids st"
  by (auto simp: has_elements_def page_ids_def)

lemma updateHabitatInfo_ok:
  assumes page: "has_elements page_ids st"
  shows "\<exists>st'. updateHabitatInfo st = (Inr (), st') \<and> text_update st st'"
proof -
  let ?v = "JNumber (Math_round (ToNumber (habitat_volume st)))"
  let ?s = "JNumber (Math_round (ToNumber (habitat_surfaceArea st)))"
  let ?c = "JNumber (crewCapacity st)"
  from set_textContent_ok[OF has_elements_member[OF page page_ids_members(6)], of ?v]
  obtain st1 where 1: "set_textContent ''volume-display'' ?v st = (Inr (), st1)"
    and u1: "text_update st st1" by blast
  from set_textContent_ok[OF has_elements_member[OF text_update_has_elements[OF u1 page]
        page_ids_members(7)], of ?s]
  obtain st2 where 2: "set_textContent ''surface-display'' ?s st1 = (Inr (), st2)"
    and u2: "text_update st1 st2" by blast
  note u12 = text_update_trans[OF u1 u2]
  from set_textContent_ok[OF has_elements_member[OF text_update_has_elements[OF u12 page]
        page_ids_members(8)], of ?c]
  obtain st3 where 3: "set_textContent ''crew-display'' ?c st2 = (Inr (), st3)"
    and u3: "text_update st2 st3" by blast
  have "updateHabitatInfo st = (Inr (), st3)"
    unfolding updateHabitatInfo_def Let_def and_then_ok[OF 1] and_then_ok[OF 2] by (rule 3)
  with text_update_trans[OF u12 u3] show ?thesis by blast
qed

lemma habitat_geometry_known:
  assumes "currentShape st = Some s" and "s \<in> {''cylinder'', ''sphere'', ''cube'', ''torus''}"
  shows "\<exists>g. habitat_geometry st = Some g"
  using assms by (auto simp: habitat_geometry_def)

lemma createHabitat_ok:
  assumes page: "has_elements page_ids st"
    and shape: "currentShape st = Some s"
    and known: "s \<in> {''cylinder'', ''sphere'', ''cube'', ''torus''}"
  shows "\<exists>st'. createHabitat st = (Inr (), st') \<and> text_update st st'"
proof -
  from habitat_geometry_known[OF shape known] obtain g where "habitat_geometry st = Some g" ..
  then have "createHabitat st = updateHabitatInfo st" by (simp add: createHabitat_def)
  with updateHabitatInfo_ok[OF page] show ?thesis by simp
qed

lemma createHabitat_throws:
  assumes "currentShape st \<notin> Some ` {''cylinder'', ''sphere'', ''cube'', ''torus''}"
  shows "createHabitat st = (Inl TypeError, st)"
  using assms by (auto simp: createHabitat_def habitat_geometry_def)

lemma check_each_ok:
  assumes "set ids \<subseteq> dom (document st)" and "layout_systems lay = Some xs"
  shows "\<exists>st'. check_each lay ids st = (Inr (), st') \<and>
     st' = st\<lparr>document := document st'\<rparr> \<and>
     dom (document st') = dom (document st) \<and>
     (\<forall>i. map_option checked (document st' i) =
        (if i \<in> set ids then map_option (\<lambda>_. i \<in> set xs) (document st i)
         else map_option checked (document st i)))"
  using assms
proof (induction ids arbitrary: st)
  case Nil
  then show ?case by simp
next
  case (Cons a ids)
  from Cons.prems obtain e where e: "document st a = Some e" by auto
  let ?st1 = "st\<lparr>document := (document st)(a \<mapsto> e\<lparr>checked := (a \<in> set xs)\<rparr>)\<rparr>"
  have step: "check_each lay (a # ids) st = check_each lay ids ?st1"
    using e Cons.prems(2) by simp
  have d1: "dom (document ?st1) = dom (document st)" using e by auto
  have "set ids \<subseteq> dom (document ?st1)" using Cons.prems(1) d1 by auto
  from Cons.IH[OF this Cons.prems(2)] obtain st'
    where run: "check_each lay ids ?st1 = (Inr (), st')"
      and same: "st' = ?st1\<lparr>document := document st'\<rparr>"
      and dm: "dom (document st') = dom (document ?st1)"
      and ch: "\<forall>i. map_option checked (document st' i) =
        (if i \<in> set ids then map_option (\<lambda>_. i \<in> set xs) (document ?st1 i)
         else map_option checked (document ?st1 i))"
    by blast
  have same': "st' = st\<lparr>document := document st'\<rparr>" by (subst same) simp
  have ch': "map_option checked (document st' i) =
        (if i \<in> set (a # ids) then map_option (\<lambda>_. i \<in> set xs) (document st i)
         else map_option checked (document st i))" for i
    using ch[rule_format, of i] e by (cases "i = a") auto
  from step run same' dm d1 ch' show ?case by (simp del: check_each.simps) 
qed

lemma check_each_enabled:
  assumes sub: "set systemIds \<subseteq> dom (document st)"
    and ch: "\<forall>i. map_option checked (document st' i) =
        (if i \<in> set systemIds then map_option (\<lambda>_. i \<in> set xs) (document st i)
         else map_option checked (document st i))"
    and dm: "dom (document st') = dom (document st)"
  shows "getEnabledSystems st' = Inr (filter (\<lambda>i. i \<in> set xs) systemIds)"
proof -
  have "set systemIds \<subseteq> dom (document st')" using sub dm by simp
  then have "filter_checked (document st') systemIds
      = Inr (filter (\<lambda>i. checked (the (document st' i))) systemIds)"
    by (rule filter_checked_total)
  also have "filter (\<lambda>i. checked (the (document st' i))) systemIds
      = filter (\<lambda>i. i \<in> set xs) systemIds"
  proof (rule filter_cong[OF refl])
    fix i assume i: "i \<in> set systemIds"
    with sub obtain e where e: "document st i = Some e" by auto
    from ch[rule_format, of i] i e have "map_option checked (document st' i) = Some (i \<in> set xs)"
      by simp
    then show "checked (the (document st' i)) = (i \<in> set xs)" by auto
  qed
  finally show ?thesis by (simp add: getEnabledSystems_def)
qed

lemma and_then_throw:
  assumes "c = (Inl e, st1)"
  shows "and_then c f = (Inl e, st1)"
  using assms by (simp add: and_then_def)

lemma loadLayoutData_until_habitat:
  assumes page: "has_elements page_ids st" and sys: "layout_systems lay = Some xs"
  shows "\<exists>st6. loadLayoutData rnd (JValue lay) st
        = and_then (createHabitat st6) (\<lambda>_ st7. autoLayout rnd st7) \<and>
     has_elements page_ids st6 \<and>
     currentShape st6 = layout_shape lay \<and>
     currentRadius st6 = layout_radius lay \<and>
     currentHeight st6 = layout_height lay \<and>
     systems st6 = systems st \<and>
     getEnabledSystems st6 = Inr (filter (\<lambda>i. i \<in> set xs) systemIds)"
proof -
  let ?ks = "filter (\<lambda>i. i \<in> set xs) systemIds"
  from set_value_ok[OF has_elements_member[OF page page_ids_members(1)]]
  obtain st1 where 1: "set_value ''shape-type'' (string_val (layout_shape lay)) st = (Inr (), st1)"
    and u1: "text_update st st1" by blast
  note p1 = text_update_has_elements[OF u1 page]
  from set_value_ok[OF has_elements_member[OF p1 page_ids_members(2)]]
  obtain st2 where 2: "set_value ''radius'' (number_val (layout_radius lay)) st1 = (Inr (), st2)"
    and u2: "text_update st1 st2" by blast
  note p2 = text_update_has_elements[OF u2 p1]
  from set_value_ok[OF has_elements_member[OF p2 page_ids_members(3)]]
  obtain st3 where 3: "set_value ''height'' (number_val (layout_height lay)) st2 = (Inr (), st3)"
    and u3: "text_update st2 st3" by blast
  note p3 = text_update_has_elements[OF u3 p2]
  from set_textContent_ok[OF has_elements_member[OF p3 page_ids_members(4)]]
  obtain st4 where 4: "set_textContent ''radius-value'' (number_val (layout_radius lay)) st3 = (Inr (), st4)"
    and u4: "text_update st3 st4" by blast
  note p4 = text_update_has_elements[OF u4 p3]
  from set_textContent_ok[OF has_elements_member[OF p4 page_ids_members(5)]]
  obtain st5 where 5: "set_textContent ''height-value'' (number_val (layout_height lay)) st4 = (Inr (), st5)"
    and u5: "text_update st4 st5" by blast
  note p5 = text_update_has_elements[OF u5 p4]
  let ?st5 = "st5\<lparr>currentShape := layout_shape lay, currentRadius := layout_radius lay,
      currentHeight := layout_height lay\<rparr>"
  have p5': "has_elements page_ids ?st5" using p5 by (simp add: has_elements_def)
  have sub: "set systemIds \<subseteq> dom (document ?st5)"
    using p5' systemIds_in_page by (auto simp: has_elements_def)
  from check_each_ok[OF sub sys] obtain st6
    where 6: "check_each lay systemIds ?st5 = (Inr (), st6)"
      and same6: "st6 = ?st5\<lparr>document := document st6\<rparr>"
      and dm6: "dom (document st6) = dom (document ?st5)"
      and ch6: "\<forall>i. map_option checked (document st6 i) =
        (if i \<in> set systemIds then map_option (\<lambda>_. i \<in> set xs) (document ?st5 i)
         else map_option checked (document ?st5 i))"
    by blast
  have en6: "getEnabledSystems st6 = Inr ?ks"
    by (rule check_each_enabled[OF sub ch6 dm6])
  have p6: "has_elements page_ids st6" using p5' dm6 by (simp add: has_elements_def)
  have f6: "currentShape st6 = layout_shape lay" "currentRadius st6 = layout_radius lay"
    "currentHeight st6 = layout_height lay"
    by (subst same6, simp)+
  have s5: "systems st5 = systems st"
    using text_update_fields(4)[OF u1] text_update_fields(4)[OF u2] text_update_fields(4)[OF u3]
      text_update_fields(4)[OF u4] text_update_fields(4)[OF u5] by simp
  have s6: "systems st6 = systems st"
    by (subst same6) (simp add: s5)
  have "loadLayoutData rnd (JValue lay) st
        = and_then (createHabitat st6) (\<lambda>_ st7. autoLayout rnd st7)"
    unfolding loadLayoutData_def json.case and_then_ok[OF 1] and_then_ok[OF 2] and_then_ok[OF 3]
      and_then_ok[OF 4] and_then_ok[OF 5] and_then_ok[OF 6]
    by (rule refl)
  with p6 f6 s6 en6 show ?thesis by blast
qed

lemma loadLayoutData_ok:
  assumes page: "has_elements page_ids st" and sys: "layout_systems lay = Some xs"
    and shape: "layout_shape lay = Some s"
    and known: "s \<in> {''cylinder'', ''sphere'', ''cube'', ''torus''}"
  shows "\<exists>st'. loadLayoutData rnd (JValue lay) st = (Inr (), st') \<and>
     currentShape st' = layout_shape lay \<and>
     currentRadius st' = layout_radius lay \<and>
     currentHeight st' = layout_height lay \<and>
     getEnabledSystems st' = Inr (filter (\<lambda>i. i \<in> set xs) systemIds) \<and>
     length (systems st') = length (filter (\<lambda>i. i \<in> set xs) systemIds)"
proof -
  let ?ks = "filter (\<lambda>i. i \<in> set xs) systemIds"
  from loadLayoutData_until_habitat[OF page sys, of rnd] obtain st6
    where run6: "loadLayoutData rnd (JValue lay) st
        = and_then (createHabitat st6) (\<lambda>_ st7. autoLayout rnd st7)"
      and p6: "has_elements page_ids st6"
      and f6: "currentShape st6 = layout_shape lay" "currentRadius st6 = layout_radius lay"
        "currentHeight st6 = layout_height lay"
      and en6: "getEnabledSystems st6 = Inr ?ks"
    by blast
  have "currentShape st6 = Some s" using f6(1) shape by simp
  from createHabitat_ok[OF p6 this known] obtain st7
    where 7: "createHabitat st6 = (Inr (), st7)" and u7: "text_update st6 st7"
    by blast
  note p7 = text_update_has_elements[OF u7 p6]
  have en7: "getEnabledSystems st7 = Inr ?ks"
    using text_update_enabled[OF u7] en6 by simp
  from has_elements_member[OF p7 page_ids_members(9)] obtain e
    where cnt: "document st7 ''systems-count'' = Some e" by auto
  note run = autoLayout_result[OF cnt en7, of rnd]
  let ?st' = "snd (autoLayout rnd st7)"
  have 8: "autoLayout rnd st7 = (Inr (), ?st')" by (simp add: run)
  have f8: "currentShape ?st' = currentShape st7" "currentRadius ?st' = currentRadius st7"
    "currentHeight ?st' = currentHeight st7" "length (systems ?st') = length ?ks"
    by (simp_all add: run)
  have en8: "getEnabledSystems ?st' = Inr ?ks"
    unfolding run snd_conv getEnabledSystems_count_update by (rule en7)
  have "loadLayoutData rnd (JValue lay) st = (Inr (), ?st')"
    unfolding run6 and_then_ok[OF 7] by (rule 8)
  with f8 en8 f6 text_update_fields(1-3)[OF u7] show ?thesis by auto
qed

text \<open>A document with a shape outside the four cases: the checkboxes and the fields are
  set, then \<open>createHabitat\<close> throws, and \<open>autoLayout\<close> does not run.\<close>

lemma loadLayoutData_unknown_shape:
  assumes page: "has_elements page_ids st" and sys: "layout_systems lay = Some xs"
    and shape: "layout_shape lay \<notin> Some ` {''cylinder'', ''sphere'', ''cube'', ''torus''}"
  shows "\<exists>st'. loadLayoutData rnd (JValue lay) st = (Inl TypeError, st') \<and>
     currentShape st' = layout_shape lay \<and>
     systems st' = systems st \<and>
     getEnabledSystems st' = Inr (filter (\<lambda>i. i \<in> set xs) systemIds)"
proof -
  from loadLayoutData_until_habitat[OF page sys, of rnd] obtain st6
    where run6: "loadLayoutData rnd (JValue lay) st
        = and_then (createHabitat st6) (\<lambda>_ st7. autoLayout rnd st7)"
      and f6: "currentShape st6 = layout_shape lay"
      and s6: "systems st6 = systems st"
      and en6: "getEnabledSystems st6 = Inr (filter (\<lambda>i. i \<in> set xs) systemIds)"
    by blast
  have "currentShape st6 \<notin> Some ` {''cylinder'', ''sphere'', ''cube'', ''torus''}"
    unfolding f6 by (rule shape)
  then have "createHabitat st6 = (Inl TypeError, st6)"
    by (rule createHabitat_throws)
  then have "loadLayoutData rnd (JValue lay) st = (Inl TypeError, st6)"
    unfolding run6 by (rule and_then_throw)
  with f6 s6 en6 show ?thesis by blast
qed

lemma enabled_subset_ids:
  assumes "getEnabledSystems st = Inr sys"
  shows "set sys \<subseteq> set systemIds"
proof -
  from assms have f: "filter_checked (document st) systemIds = Inr sys"
    by (simp add: getEnabledSystems_def)
  from filter_checked_total[OF filter_checked_Inr_dom[OF f]] f
  have "sys = filter (\<lambda>i. checked (the (document st i))) systemIds" by simp
  then show ?thesis by auto
qed

lemma loadLayoutData_no_systems:
  assumes page: "has_elements page_ids st" and sys: "layout_systems lay = None"
  shows "\<exists>st'. loadLayoutData rnd (JValue lay) st = (Inl TypeError, st') \<and>
     currentShape st' = layout_shape lay \<and>
     currentRadius st' = layout_radius lay \<and>
     currentHeight st' = layout_height lay"
proof -
  from set_value_ok[OF has_elements_member[OF page page_ids_members(1)]]
  obtain st1 where 1: "set_value ''shape-type'' (string_val (layout_shape lay)) st = (Inr (), st1)"
    and u1: "text_update st st1" by blast
  note p1 = text_update_has_elements[OF u1 page]
  from set_value_ok[OF has_elements_member[OF p1 page_ids_members(2)]]
  obtain st2 where 2: "set_value ''radius'' (number_val (layout_radius lay)) st1 = (Inr (), st2)"
    and u2: "text_update st1 st2" by blast
  note p2 = text_update_has_elements[OF u2 p1]
  from set_value_ok[OF has_elements_member[OF p2 page_ids_members(3)]]
  obtain st3 where 3: "set_value ''height'' (number_val (layout_height lay)) st2 = (Inr (), st3)"
    and u3: "text_update st2 st3" by blast
  note p3 = text_update_has_elements[OF u3 p2]
  from set_textContent_ok[OF has_elements_member[OF p3 page_ids_members(4)]]
  obtain st4 where 4: "set_textContent ''radius-value'' (number_val (layout_radius lay)) st3 = (Inr (), st4)"
    and u4: "text_update st3 st4" by blast
  note p4 = text_update_has_elements[OF u4 p3]
  from set_textContent_ok[OF has_elements_member[OF p4 page_ids_members(5)]]
  obtain st5 where 5: "set_textContent ''height-value'' (number_val (layout_height lay)) st4 = (Inr (), st5)"
    and u5: "text_update st4 st5" by blast
  let ?st5 = "st5\<lparr>currentShape := layout_shape lay, currentRadius := layout_radius lay,
      currentHeight := layout_height lay\<rparr>"
  have 6: "check_each lay systemIds ?st5 = (Inl TypeError, ?st5)"
    by (simp add: systemIds_def sys split: option.splits)
  have "loadLayoutData rnd (JValue lay) st = (Inl TypeError, ?st5)"
    unfolding loadLayoutData_def json.case and_then_ok[OF 1] and_then_ok[OF 2] and_then_ok[OF 3]
      and_then_ok[OF 4] and_then_ok[OF 5] and_then_throw[OF 6]
    by (rule refl)
  then show ?thesis by simp
qed

text \<open>Bounds of \<open>pi\<close> from Machin's formula and the alternating series of \<open>arctan\<close>.\<close>

lemma arctan_between:
  fixes x :: real
  assumes "0 < x" "x \<le> 1"
  shows "(\<Sum>i<2*n. (- 1) ^ i * (1 / real (i * 2 + 1) * x ^ (i * 2 + 1))) \<le> arctan x"
    and "arctan x \<le> (\<Sum>i<2*n+1. (- 1) ^ i * (1 / real (i * 2 + 1) * x ^ (i * 2 + 1)))"
proof -
  have ax: "\<bar>x\<bar> \<le> 1" using assms by simp
  have pos: "0 < 1 / real (0 * 2 + 1) * x ^ (0 * 2 + 1)" using assms by simp
  have mem: "(\<Sum>i. (- 1) ^ i * (1 / real (i * 2 + 1) * x ^ (i * 2 + 1)))
      \<in> {\<Sum>i<2*n. (- 1) ^ i * (1 / real (i * 2 + 1) * x ^ (i * 2 + 1)) ..
         \<Sum>i<2*n+1. (- 1) ^ i * (1 / real (i * 2 + 1) * x ^ (i * 2 + 1))}"
    using summable_Leibniz(2)[OF zeroseq_arctan_series[OF ax] monoseq_arctan_series[OF ax]] pos
    by blast
  show "(\<Sum>i<2*n. (- 1) ^ i * (1 / real (i * 2 + 1) * x ^ (i * 2 + 1))) \<le> arctan x"
    using mem arctan_series[OF ax] by simp
  show "arctan x \<le> (\<Sum>i<2*n+1. (- 1) ^ i * (1 / real (i * 2 + 1) * x ^ (i * 2 + 1)))"
    using mem arctan_series[OF ax] by simp
qed

lemma pi_bounds: "3.1415 < pi" "pi < 3.1416"
proof -
  have m: "pi = 16 * arctan (1 / 5) - 4 * arctan (1 / 239)"
    using machin by simp
  have l5: "(\<Sum>i<2*2. (- 1) ^ i * (1 / real (i * 2 + 1) * (1/5) ^ (i * 2 + 1))) \<le> arctan (1/5 :: real)"
    by (rule arctan_between(1)) simp_all
  have u5: "arctan (1/5 :: real) \<le> (\<Sum>i<2*2+1. (- 1) ^ i * (1 / real (i * 2 + 1) * (1/5) ^ (i * 2 + 1)))"
    by (rule arctan_between(2)) simp_all
  have l239: "(\<Sum>i<2*1. (- 1) ^ i * (1 / real (i * 2 + 1) * (1/239) ^ (i * 2 + 1))) \<le> arctan (1/239 :: real)"
    by (rule arctan_between(1)) simp_all
  have u239: "arctan (1/239 :: real) \<le> (\<Sum>i<2*0+1. (- 1) ^ i * (1 / real (i * 2 + 1) * (1/239) ^ (i * 2 + 1)))"
    by (rule arctan_between(2)) simp_all
  have l5': "(1/5 - 1/375 + 1/15625 - 1/546875 :: real) \<le> arctan (1/5)"
    using l5 by (simp add: lessThan_nat_numeral lessThan_Suc power_divide)
  have u5': "arctan (1/5) \<le> (1/5 - 1/375 + 1/15625 - 1/546875 + 1/17578125 :: real)"
    using u5 by (simp add: lessThan_nat_numeral lessThan_Suc power_divide)
  have l239': "(1/239 - 1/40955757 :: real) \<le> arctan (1/239)"
    using l239 by (simp add: lessThan_nat_numeral lessThan_Suc power_divide)
  have u239': "arctan (1/239) \<le> (1/239 :: real)"
    using u239 by (simp add: lessThan_nat_numeral lessThan_Suc power_divide)
  show "3.1415 < pi" using m l5' u239' by simp
  show "pi < 3.1416" using m u5' l239' by simp
qed

lemma floor_crew: "\<lfloor>pi * 10 * 10 * 15 / 20\<rfloor> = 235"
proof -
  have "235 \<le> pi * 10 * 10 * 15 / 20" "pi * 10 * 10 * 15 / 20 < 236"
    using pi_bounds by simp_all
  then show ?thesis by (simp add: floor_eq_iff)
qed

lemma round_volume: "\<lfloor>pi * 10 * 10 * 15 + 1 / 2\<rfloor> = 4712"
proof -
  have "4712 \<le> pi * 10 * 10 * 15 + 1 / 2" "pi * 10 * 10 * 15 + 1 / 2 < 4713"
    using pi_bounds by simp_all
  then show ?thesis by (simp add: floor_eq_iff)
qed

lemma round_surface: "\<lfloor>2 * pi * 10 * 15 + 2 * pi * 10 * 10 + 1 / 2\<rfloor> = 1571"
proof -
  have "1571 \<le> 2 * pi * 10 * 15 + 2 * pi * 10 * 10 + 1 / 2"
    "2 * pi * 10 * 15 + 2 * pi * 10 * 10 + 1 / 2 < 1572"
    using pi_bounds by simp_all
  then show ?thesis by (simp add: floor_eq_iff)
qed

lemma habitat_volume_number:
  assumes s: "s \<in> {''cylinder'', ''sphere'', ''cube'', ''torus''}" and sh: "currentShape st = Some s"
    and r: "currentRadius st = Some (Num r)" and h: "currentHeight st = Some (Num h)"
  shows "\<exists>v. habitat_volume st = Some (Num v)"
proof -
  from s consider "s = ''cylinder''" | "s = ''sphere''" | "s = ''cube''" | "s = ''torus''"
    by auto
  then show ?thesis
  proof cases
    case 1
    then have "habitat_volume st = Some (Num (pi * r * r * h))"
      by (simp add: habitat_volume_def Math_PI_def sh r h)
    then show ?thesis by blast
  next
    case 2
    then have "habitat_volume st = Some (Num (4 / 3 * pi * r * r * r))"
      by (simp add: habitat_volume_def Math_PI_def sh r h)
    then show ?thesis by blast
  next
    case 3
    then have "habitat_volume st = Some (Num (r * 2 * h * r * 2))"
      by (simp add: habitat_volume_def Math_PI_def sh r h)
    then show ?thesis by blast
  next
    case 4
    then have "habitat_volume st = Some (Num (2 * pi * pi * r * (r * 0.3) * (r * 0.3)))"
      by (simp add: habitat_volume_def Math_PI_def sh r h)
    then show ?thesis by blast
  qed
qed

lemma crewCapacity_of_volume:
  "habitat_volume st = Some (Num v) \<Longrightarrow> crewCapacity st = Num (of_int \<lfloor>v / 20\<rfloor>)"
  by (simp add: crewCapacity_def)

section \<open>Auto-layout\<close>

text \<open>
  C1. For a page with the elements of \<open>layout_ids\<close>, a non-empty list \<open>ks\<close> of \<open>N\<close> enabled
  systems, a radius \<open>r\<close> and a height \<open>h\<close>, \<open>autoLayout\<close> completes and stores exactly \<open>N\<close>
  placements in the order of \<open>ks\<close>. The placement at index \<open>i\<close> has
  \<open>x = cos (i * 2 pi / N) * (0.8 * r)\<close>, \<open>z = sin (i * 2 pi / N) * (0.8 * r)\<close> and
  \<open>y = (U - 0.5) * (0.8 * h) * 0.5\<close>, where \<open>U\<close> is the value that \<^verbatim>\<open>Math.random()\<close>, the
  uniform generator of the platform on \<open>[0,1)\<close>, returns in that iteration. For a radius of
  the data model, which is not negative, the distance of the placement from the axis in
  the x-z plane is \<open>0.8 * r\<close>; in general it is the absolute value of \<open>0.8 * r\<close>.
\<close>

theorem autoLayout_placements:
  assumes page: "has_elements layout_ids st"
    and en: "getEnabledSystems st = Inr ks" and ne: "ks \<noteq> []"
    and rad: "currentRadius st = Some (Num r)" and hei: "currentHeight st = Some (Num h)"
    and rnd: "\<forall>i<length ks. 0 \<le> rnd i \<and> rnd i < 1"
  shows "\<exists>st'. autoLayout rnd st = (Inr (), st') \<and> length (systems st') = length ks \<and>
    (\<forall>i<length ks.
       userData_type (systems st' ! i) = ks ! i \<and>
       (\<exists>U. U = rnd i \<and> 0 \<le> U \<and> U < 1 \<and>
          mesh_position (systems st' ! i) =
            \<lparr>vx = Num (cos (real i * (2 * pi / real (length ks))) * (0.8 * r)),
             vy = Num ((U - 0.5) * (0.8 * h) * 0.5),
             vz = Num (sin (real i * (2 * pi / real (length ks))) * (0.8 * r))\<rparr>) \<and>
       radial_distance (mesh_position (systems st' ! i)) = Num \<bar>0.8 * r\<bar> \<and>
       (0 \<le> r \<longrightarrow> radial_distance (mesh_position (systems st' ! i)) = Num (0.8 * r)))"
proof -
  from has_layout_elements(1)[OF page] obtain e where cnt: "document st ''systems-count'' = Some e" ..
  let ?a = "2 * pi / real (length ks)"
  let ?P = "placed rnd (Num (r * 0.8)) (Num (h * 0.8)) (Num ?a) 0 ks"
  let ?st' = "st\<lparr>systemsGroup := ?P, systems := ?P,
      document := (document st)(''systems-count'' \<mapsto> e\<lparr>textContent := JNumber (Num (real (length ks)))\<rparr>)\<rparr>"
  have len: "real (length ks) \<noteq> 0" using ne by simp
  have run: "autoLayout rnd st = (Inr (), ?st')"
    using autoLayout_result[OF cnt en, of rnd] len by (simp add: rad hei Math_PI_def)
  have each: "userData_type (systems ?st' ! i) = ks ! i \<and>
       (\<exists>U. U = rnd i \<and> 0 \<le> U \<and> U < 1 \<and>
          mesh_position (systems ?st' ! i) =
            \<lparr>vx = Num (cos (real i * ?a) * (0.8 * r)),
             vy = Num ((U - 0.5) * (0.8 * h) * 0.5),
             vz = Num (sin (real i * ?a) * (0.8 * r))\<rparr>) \<and>
       radial_distance (mesh_position (systems ?st' ! i)) = Num \<bar>0.8 * r\<bar> \<and>
       (0 \<le> r \<longrightarrow> radial_distance (mesh_position (systems ?st' ! i)) = Num (0.8 * r))"
    if i: "i < length ks" for i
  proof -
    have s: "systems ?st' ! i = place_system rnd (Num (r * 0.8)) (Num (h * 0.8)) (Num ?a) (ks ! i) i"
      using nth_placed[OF i, of rnd _ _ _ 0] by simp
    have pos: "mesh_position (systems ?st' ! i) =
            \<lparr>vx = Num (cos (real i * ?a) * (0.8 * r)),
             vy = Num ((rnd i - 0.5) * (0.8 * h) * 0.5),
             vz = Num (sin (real i * ?a) * (0.8 * r))\<rparr>"
      unfolding s place_system_fields by (simp add: mult.commute)
    have u: "0 \<le> rnd i \<and> rnd i < 1" using rnd i by blast
    have rd: "radial_distance (mesh_position (systems ?st' ! i)) = Num \<bar>0.8 * r\<bar>"
      unfolding pos radial_distance_def using radial_circle[of "real i * ?a" "0.8 * r"] by simp
    have k: "userData_type (systems ?st' ! i) = ks ! i"
      unfolding s by (rule place_system_fields(1))
    from k pos u rd show ?thesis by auto
  qed
  have "length (systems ?st') = length ks" by simp
  with run each show ?thesis by blast
qed

theorem autoLayout_placements_witness:
  "fst (autoLayout (\<lambda>_. 1 / 2) (new_designer (page_with [''power'', ''medical''])))  = Inr () \<and>
   length (systems (snd (autoLayout (\<lambda>_. 1 / 2) (new_designer (page_with [''power'', ''medical''])))))
     = 2 \<and>
   userData_type (systems (snd (autoLayout (\<lambda>_. 1 / 2)
       (new_designer (page_with [''power'', ''medical'']))))  ! 1) = ''medical'' \<and>
   radial_distance (mesh_position (systems (snd (autoLayout (\<lambda>_. 1 / 2)
       (new_designer (page_with [''power'', ''medical'']))))  ! 1)) = Num 8"
proof -
  let ?st = "new_designer (page_with [''power'', ''medical''])"
  have en: "getEnabledSystems ?st = Inr [''power'', ''medical'']"
    using getEnabledSystems_page_with[of ?st "[''power'', ''medical'']"]
    by (simp add: new_designer_def systemIds_def)
  have ne: "[''power'', ''medical''] \<noteq> []" by simp
  have rad: "currentRadius ?st = Some (Num 10)" by (simp add: new_designer_def)
  have hei: "currentHeight ?st = Some (Num 15)" by (simp add: new_designer_def)
  have rnd: "\<forall>i<length [''power'', ''medical'']. 0 \<le> (\<lambda>_. 1 / 2 :: real) i \<and> (\<lambda>_. 1 / 2 :: real) i < 1"
    by simp
  from autoLayout_placements[OF page_with_new_designer(2) en ne rad hei rnd]
  obtain st' where run: "autoLayout (\<lambda>_. 1 / 2) ?st = (Inr (), st')"
    and len: "length (systems st') = length [''power'', ''medical'']"
    and each: "\<forall>i<length [''power'', ''medical''].
       userData_type (systems st' ! i) = [''power'', ''medical''] ! i \<and>
       (\<exists>U. U = 1 / 2 \<and> 0 \<le> U \<and> U < 1 \<and>
          mesh_position (systems st' ! i) =
            \<lparr>vx = Num (cos (real i * (2 * pi / real (length [''power'', ''medical'']))) * (0.8 * 10)),
             vy = Num ((U - 0.5) * (0.8 * 15) * 0.5),
             vz = Num (sin (real i * (2 * pi / real (length [''power'', ''medical'']))) * (0.8 * 10))\<rparr>) \<and>
       radial_distance (mesh_position (systems st' ! i)) = Num \<bar>0.8 * 10\<bar> \<and>
       (0 \<le> (10::real) \<longrightarrow> radial_distance (mesh_position (systems st' ! i)) = Num (0.8 * 10))"
    by blast
  from each have "userData_type (systems st' ! 1) = [''power'', ''medical''] ! 1 \<and>
      radial_distance (mesh_position (systems st' ! 1)) = Num (0.8 * 10)"
    by simp
  then show ?thesis using run len by simp
qed

text \<open>
  C10. With a height \<open>h > 0\<close> and draws in \<open>[0,1)\<close>, every placement that \<open>autoLayout\<close>
  stores has a vertical coordinate \<open>y\<close> with \<open>-0.2 * h \<le> y < 0.2 * h\<close>, so that
  \<open>-h/2 < y < h/2\<close>: the position of every marker lies strictly within the vertical
  extent of the habitat.
\<close>

theorem autoLayout_vertical_extent:
  assumes page: "has_elements layout_ids st"
    and en: "getEnabledSystems st = Inr ks"
    and hei: "currentHeight st = Some (Num h)" and pos: "0 < h"
    and rnd: "\<forall>i<length ks. 0 \<le> rnd i \<and> rnd i < 1"
  shows "\<exists>st'. autoLayout rnd st = (Inr (), st') \<and> length (systems st') = length ks \<and>
    (\<forall>p \<in> set (systems st'). \<exists>y. vy (mesh_position p) = Num y \<and>
        - 0.2 * h \<le> y \<and> y < 0.2 * h \<and> - (h / 2) < y \<and> y < h / 2)"
proof -
  from has_layout_elements(1)[OF page] obtain e where cnt: "document st ''systems-count'' = Some e" ..
  let ?R = "times_js (ToNumber (currentRadius st)) (Num 0.8)"
  let ?a = "divide_js (times_js (Num 2) Math_PI) (Num (real (length ks)))"
  let ?P = "placed rnd ?R (Num (h * 0.8)) ?a 0 ks"
  let ?st' = "st\<lparr>systemsGroup := ?P, systems := ?P,
      document := (document st)(''systems-count'' \<mapsto> e\<lparr>textContent := JNumber (Num (real (length ks)))\<rparr>)\<rparr>"
  have run: "autoLayout rnd st = (Inr (), ?st')"
    using autoLayout_result[OF cnt en, of rnd] by (simp add: hei)
  have "\<exists>y. vy (mesh_position p) = Num y \<and>
        - 0.2 * h \<le> y \<and> y < 0.2 * h \<and> - (h / 2) < y \<and> y < h / 2"
    if "p \<in> set (systems ?st')" for p
  proof -
    from that have "p \<in> set ?P" by simp
    from in_set_placed[OF this] obtain j k
      where p: "p = place_system rnd ?R (Num (h * 0.8)) ?a k (0 + j)" and j: "j < length ks"
      by blast
    have y: "vy (mesh_position p) = Num ((rnd j - 0.5) * (h * 0.8) * 0.5)"
      unfolding p by (simp add: place_system_vy)
    have u: "0 \<le> rnd j" "rnd j < 1" using rnd j by auto
    note b = jitter_bounds[OF u pos]
    have "- (h / 2) < - 0.2 * h" "0.2 * h < h / 2" using pos by simp_all
    with b have "- (h / 2) < (rnd j - 0.5) * (h * 0.8) * 0.5" "(rnd j - 0.5) * (h * 0.8) * 0.5 < h / 2"
      by linarith+
    with y b show ?thesis by blast
  qed
  moreover have "length (systems ?st') = length ks" by simp
  ultimately show ?thesis using run by blast
qed

theorem autoLayout_vertical_extent_witness:
  "fst (autoLayout (\<lambda>_. 0) (new_designer (page_with [''sleep'']))) = Inr () \<and>
   vy (mesh_position (hd (systems (snd (autoLayout (\<lambda>_. 0) (new_designer (page_with [''sleep''])))))))
     \<in> Num ` {- 3 ..< 3}"
proof -
  let ?st = "new_designer (page_with [''sleep''])"
  have en: "getEnabledSystems ?st = Inr [''sleep'']"
    using getEnabledSystems_page_with[of ?st "[''sleep'']"]
    by (simp add: new_designer_def systemIds_def)
  have hei: "currentHeight ?st = Some (Num 15)" by (simp add: new_designer_def)
  have pos: "0 < (15::real)" by simp
  have rnd: "\<forall>i<length [''sleep'']. 0 \<le> (\<lambda>_. 0 :: real) i \<and> (\<lambda>_. 0 :: real) i < 1"
    by simp
  from autoLayout_vertical_extent[OF page_with_new_designer(2) en hei pos rnd]
  obtain st' where run: "autoLayout (\<lambda>_. 0) ?st = (Inr (), st')"
    and len: "length (systems st') = length [''sleep'']"
    and each: "\<forall>p \<in> set (systems st'). \<exists>y. vy (mesh_position p) = Num y \<and>
        - 0.2 * 15 \<le> y \<and> y < 0.2 * 15 \<and> - (15 / 2) < y \<and> y < 15 / 2"
    by blast
  from len obtain p where sy: "systems st' = [p]"
    by (cases "systems st'") auto
  with each obtain y where "vy (mesh_position p) = Num y" "- 3 \<le> y" "y < 3" by auto
  then have "vy (mesh_position p) \<in> Num ` {- 3 ..< 3}" by simp
  then show ?thesis using run sy by simp
qed

text \<open>
  C8. On a page with the elements of \<open>layout_ids\<close>, \<open>autoLayout\<close> completes without
  throwing for every radius, height and stored state; with no enabled system it leaves
  an empty collection of placements. (Without the element \<open>systems-count\<close> it throws, see
  \<open>autoLayout_throws_without_count\<close>.)
\<close>

theorem autoLayout_total:
  assumes page: "has_elements layout_ids st"
  shows "\<exists>st'. autoLayout rnd st = (Inr (), st') \<and>
     (getEnabledSystems st = Inr [] \<longrightarrow> systems st' = [] \<and> systemsGroup st' = [])"
proof -
  from has_layout_elements[OF page] obtain e ks
    where cnt: "document st ''systems-count'' = Some e" and en: "getEnabledSystems st = Inr ks"
    by blast
  show ?thesis
    using autoLayout_result[OF cnt en, of rnd] en by auto
qed

theorem autoLayout_total_witness:
  "fst (autoLayout (\<lambda>_. 0) (new_designer (page_with []))) = Inr () \<and>
   systems (snd (autoLayout (\<lambda>_. 0) (new_designer (page_with [])))) = [] \<and>
   systemsGroup (snd (autoLayout (\<lambda>_. 0) (new_designer (page_with [])))) = []"
proof -
  let ?st = "new_designer (page_with [])"
  have en: "getEnabledSystems ?st = Inr []"
    using getEnabledSystems_page_with[of ?st "[]"]
    by (simp add: new_designer_def)
  from autoLayout_total[OF page_with_new_designer(2), of "\<lambda>_. 0" "[]"] en
  show ?thesis by auto
qed

text \<open>
  C7. The systems are placed in the order of the fixed list \<open>systemIds\<close> (life-support, power,
  waste, thermal, communications, medical, sleep, exercise, food, stowage) restricted to the
  checked ones. The order of the clicks that checked them does not matter: two sequences of
  clicks that are permutations of each other leave the same list of enabled systems. A
  single enabled system is placed at angle 0, at \<open>(0.8 * radius, y, 0)\<close>.
\<close>

theorem placement_order_canonical:
  assumes page: "has_elements layout_ids st"
  shows "\<exists>ks st'.
      getEnabledSystems st = Inr ks \<and>
      ks = filter (\<lambda>i. checked (the (document st i))) systemIds \<and>
      autoLayout rnd st = (Inr (), st') \<and>
      map userData_type (systems st') = ks \<and>
      (\<forall>k r. ks = [k] \<and> currentRadius st = Some (Num r) \<longrightarrow>
         (\<exists>y. mesh_position (systems st' ! 0) = \<lparr>vx = Num (0.8 * r), vy = y, vz = Num 0\<rparr>)) \<and>
      (mset cs1 = mset cs2 \<longrightarrow>
         getEnabledSystems (fold click_checkbox cs1 st) = getEnabledSystems (fold click_checkbox cs2 st))"
proof -
  from has_layout_elements[OF page] obtain e
    where cnt: "document st ''systems-count'' = Some e"
      and en: "getEnabledSystems st = Inr (filter (\<lambda>i. checked (the (document st i))) systemIds)"
    by blast
  let ?ks = "filter (\<lambda>i. checked (the (document st i))) systemIds"
  let ?R = "times_js (ToNumber (currentRadius st)) (Num 0.8)"
  let ?H = "times_js (ToNumber (currentHeight st)) (Num 0.8)"
  let ?a = "divide_js (times_js (Num 2) Math_PI) (Num (real (length ?ks)))"
  let ?P = "placed rnd ?R ?H ?a 0 ?ks"
  let ?st' = "st\<lparr>systemsGroup := ?P, systems := ?P,
      document := (document st)(''systems-count'' \<mapsto> e\<lparr>textContent := JNumber (Num (real (length ?ks)))\<rparr>)\<rparr>"
  have run: "autoLayout rnd st = (Inr (), ?st')"
    by (rule autoLayout_result[OF cnt en])
  have kinds: "map userData_type (systems ?st') = ?ks"
    by (simp add: kinds_placed)
  have single: "\<exists>y. mesh_position (systems ?st' ! 0) = \<lparr>vx = Num (0.8 * r), vy = y, vz = Num 0\<rparr>"
    if "?ks = [k]" "currentRadius st = Some (Num r)" for k r
  proof -
    have "?P = placed rnd (Num (r * 0.8)) ?H (Num (2 * pi)) 0 [k]"
      using that by (simp add: Math_PI_def)
    then have "mesh_position (systems ?st' ! 0) =
        mesh_position (placed rnd (Num (r * 0.8)) ?H (Num (2 * pi)) 0 [k] ! 0)"
      by simp
    also note single_placed[of rnd "r * 0.8" ?H "2 * pi" k]
    also have "r * 0.8 = 0.8 * r" by simp
    finally show ?thesis by blast
  qed
  from en run kinds single clicks_order_irrelevant[of cs1 cs2 st] show ?thesis
    by blast
qed

theorem placement_order_canonical_witness:
  "getEnabledSystems (new_designer (page_with [''medical''])) = Inr [''medical''] \<and>
   fst (autoLayout (\<lambda>_. 0) (new_designer (page_with [''medical''])))  = Inr () \<and>
   map userData_type (systems (snd (autoLayout (\<lambda>_. 0) (new_designer (page_with [''medical''])))))
     = [''medical''] \<and>
   vx (mesh_position (systems (snd (autoLayout (\<lambda>_. 0) (new_designer (page_with [''medical''])))) ! 0))
     = Num 8 \<and>
   vz (mesh_position (systems (snd (autoLayout (\<lambda>_. 0) (new_designer (page_with [''medical''])))) ! 0))
     = Num 0 \<and>
   getEnabledSystems (fold click_checkbox [''power'', ''food''] (new_designer (page_with [''medical''])))
     = getEnabledSystems (fold click_checkbox [''food'', ''power''] (new_designer (page_with [''medical''])))"
proof -
  let ?st = "new_designer (page_with [''medical''])"
  have en: "getEnabledSystems ?st = Inr [''medical'']"
    using getEnabledSystems_page_with[of ?st "[''medical'']"]
    by (simp add: new_designer_def systemIds_def)
  have rad: "currentRadius ?st = Some (Num 10)" by (simp add: new_designer_def)
  have ms: "mset [''power'', ''food''] = mset [''food'', ''power'']" by simp
  from placement_order_canonical[OF page_with_new_designer(2),
      of "[''medical'']" "\<lambda>_. 0" "[''power'', ''food'']" "[''food'', ''power'']"]
  obtain ks st' where a: "getEnabledSystems ?st = Inr ks"
    and run: "autoLayout (\<lambda>_. 0) ?st = (Inr (), st')"
    and kinds: "map userData_type (systems st') = ks"
    and single: "\<forall>k r. ks = [k] \<and> currentRadius ?st = Some (Num r) \<longrightarrow>
         (\<exists>y. mesh_position (systems st' ! 0) = \<lparr>vx = Num (0.8 * r), vy = y, vz = Num 0\<rparr>)"
    and clicks: "mset [''power'', ''food''] = mset [''food'', ''power''] \<longrightarrow>
         getEnabledSystems (fold click_checkbox [''power'', ''food''] ?st)
           = getEnabledSystems (fold click_checkbox [''food'', ''power''] ?st)"
    by blast
  from a en have ks: "ks = [''medical'']" by simp
  with single rad obtain y
    where "mesh_position (systems st' ! 0) = \<lparr>vx = Num (0.8 * 10), vy = y, vz = Num 0\<rparr>"
    by blast
  then have "vx (mesh_position (systems st' ! 0)) = Num 8" "vz (mesh_position (systems st' ! 0)) = Num 0"
    by simp_all
  with en run kinds ks clicks ms show ?thesis by simp
qed

text \<open>
  C6 (amended). \<open>autoLayout\<close> itself starts with \<open>clearSystems\<close>: the placements stored
  afterwards are those of the enabled systems only, the same as when the collection was
  empty before, and the displayed count is their number. \<open>clearSystems\<close> resets the stored
  collection to empty and the displayed count to 0.
\<close>

theorem autoLayout_clears_first:
  assumes page: "has_elements layout_ids st"
  shows "(\<exists>st'. clearSystems st = (Inr (), st') \<and> systems st' = [] \<and> systemsGroup st' = [] \<and>
            map_option textContent (document st' ''systems-count'') = Some (JNumber (Num 0))) \<and>
         (\<exists>ks st'. getEnabledSystems st = Inr ks \<and> autoLayout rnd st = (Inr (), st') \<and>
            length (systems st') = length ks \<and>
            systems st' = systems (snd (autoLayout rnd (st\<lparr>systemsGroup := [], systems := []\<rparr>))) \<and>
            map_option textContent (document st' ''systems-count'')
              = Some (JNumber (Num (real (length ks)))))"
proof -
  from has_layout_elements[OF page] obtain e ks
    where cnt: "document st ''systems-count'' = Some e" and en: "getEnabledSystems st = Inr ks"
    by blast
  let ?st0 = "st\<lparr>systemsGroup := [], systems := []\<rparr>"
  have cnt0: "document ?st0 ''systems-count'' = Some e" using cnt by simp
  have en0: "getEnabledSystems ?st0 = Inr ks" using en by (simp add: getEnabledSystems_def)
  have clear: "\<exists>st'. clearSystems st = (Inr (), st') \<and> systems st' = [] \<and> systemsGroup st' = [] \<and>
            map_option textContent (document st' ''systems-count'') = Some (JNumber (Num 0))"
    unfolding clearSystems_result[OF cnt] by simp
  have "\<exists>st'. autoLayout rnd st = (Inr (), st') \<and>
            length (systems st') = length ks \<and>
            systems st' = systems (snd (autoLayout rnd ?st0)) \<and>
            map_option textContent (document st' ''systems-count'')
              = Some (JNumber (Num (real (length ks))))"
    unfolding autoLayout_result[OF cnt en] autoLayout_result[OF cnt0 en0] by simp
  with clear en show ?thesis by blast
qed

theorem autoLayout_clears_first_witness:
  "systems (snd (clearSystems (new_designer (page_with [''food'']))))  = [] \<and>
   length (systems (snd (autoLayout (\<lambda>_. 0) (new_designer (page_with [''food'']))))) = 1 \<and>
   map_option textContent
     (document (snd (autoLayout (\<lambda>_. 0) (new_designer (page_with [''food''])))) ''systems-count'')
     = Some (JNumber (Num 1))"
proof -
  let ?st = "new_designer (page_with [''food''])"
  have en: "getEnabledSystems ?st = Inr [''food'']"
    using getEnabledSystems_page_with[of ?st "[''food'']"]
    by (simp add: new_designer_def systemIds_def)
  from autoLayout_clears_first[OF page_with_new_designer(2), of "[''food'']" "\<lambda>_. 0"] en
  show ?thesis by auto
qed

text \<open>
  C6 as stated fails: with one stored placement and no enabled system, \<open>autoLayout\<close>
  leaves an empty collection, although the caller did not invoke \<open>clearSystems\<close>.
\<close>

theorem autoLayout_drops_stored_placements:
  "systems (new_designer (page_with [])
      \<lparr>systemsGroup := [createSystem ''power'' \<lparr>vx = Num 8, vy = Num 0, vz = Num 0\<rparr>],
        systems := [createSystem ''power'' \<lparr>vx = Num 8, vy = Num 0, vz = Num 0\<rparr>]\<rparr>) \<noteq> [] \<and>
   autoLayout (\<lambda>_. 0) (new_designer (page_with [])
      \<lparr>systemsGroup := [createSystem ''power'' \<lparr>vx = Num 8, vy = Num 0, vz = Num 0\<rparr>],
        systems := [createSystem ''power'' \<lparr>vx = Num 8, vy = Num 0, vz = Num 0\<rparr>]\<rparr>)
    = (Inr (), new_designer ((page_with [])(''systems-count'' \<mapsto>
         \<lparr>elem_value = JUndefined, textContent = JNumber (Num 0), checked = False\<rparr>)))"
proof -
  let ?st = "new_designer (page_with [])
      \<lparr>systemsGroup := [createSystem ''power'' \<lparr>vx = Num 8, vy = Num 0, vz = Num 0\<rparr>],
        systems := [createSystem ''power'' \<lparr>vx = Num 8, vy = Num 0, vz = Num 0\<rparr>]\<rparr>"
  have d: "document ?st = page_with []" by (simp add: new_designer_def)
  have en: "getEnabledSystems ?st = Inr []"
    using getEnabledSystems_page_with[OF d] by simp
  have cnt: "document ?st ''systems-count'' =
      Some \<lparr>elem_value = JUndefined, textContent = JUndefined, checked = False\<rparr>"
    by (simp add: new_designer_def page_with_def page_ids_def layout_ids_def)
  show ?thesis
    unfolding autoLayout_result[OF cnt en] by (simp add: new_designer_def)
qed

section \<open>Habitat metrics\<close>

text \<open>
  C2. For every radius \<open>r\<close> and height \<open>h\<close> (positive or not) the \<^verbatim>\<open>switch\<close> of
  \<open>updateHabitatInfo\<close> computes: for the cylinder, volume \<open>pi r\<^sup>2 h\<close> and surface area
  \<open>2 pi r h + 2 pi r\<^sup>2\<close>; for the sphere, \<open>4/3 pi r\<^sup>3\<close> and \<open>4 pi r\<^sup>2\<close>; for the cube,
  \<open>(2r) h (2r)\<close> and \<open>2 ((2r) h + (2r) (2r) + h (2r))\<close>; for the torus with minor radius
  \<open>0.3 r\<close>, \<open>2 pi\<^sup>2 r (0.3 r)\<^sup>2\<close> and \<open>4 pi\<^sup>2 r (0.3 r)\<close>.
\<close>

theorem metrics_formulas:
  "habitat_volume (st\<lparr>currentShape := Some ''cylinder'', currentRadius := Some (Num r),
       currentHeight := Some (Num h)\<rparr>) = Some (Num (pi * r\<^sup>2 * h)) \<and>
   habitat_surfaceArea (st\<lparr>currentShape := Some ''cylinder'', currentRadius := Some (Num r),
       currentHeight := Some (Num h)\<rparr>) = Some (Num (2 * pi * r * h + 2 * pi * r\<^sup>2)) \<and>
   habitat_volume (st\<lparr>currentShape := Some ''sphere'', currentRadius := Some (Num r),
       currentHeight := Some (Num h)\<rparr>) = Some (Num (4 / 3 * pi * r ^ 3)) \<and>
   habitat_surfaceArea (st\<lparr>currentShape := Some ''sphere'', currentRadius := Some (Num r),
       currentHeight := Some (Num h)\<rparr>) = Some (Num (4 * pi * r\<^sup>2)) \<and>
   habitat_volume (st\<lparr>currentShape := Some ''cube'', currentRadius := Some (Num r),
       currentHeight := Some (Num h)\<rparr>) = Some (Num ((2 * r) * h * (2 * r))) \<and>
   habitat_surfaceArea (st\<lparr>currentShape := Some ''cube'', currentRadius := Some (Num r),
       currentHeight := Some (Num h)\<rparr>)
     = Some (Num (2 * ((2 * r) * h + (2 * r) * (2 * r) + h * (2 * r)))) \<and>
   habitat_volume (st\<lparr>currentShape := Some ''torus'', currentRadius := Some (Num r),
       currentHeight := Some (Num h)\<rparr>) = Some (Num (2 * pi\<^sup>2 * r * (0.3 * r)\<^sup>2)) \<and>
   habitat_surfaceArea (st\<lparr>currentShape := Some ''torus'', currentRadius := Some (Num r),
       currentHeight := Some (Num h)\<rparr>) = Some (Num (4 * pi\<^sup>2 * r * (0.3 * r)))"
  by (simp add: habitat_volume_def habitat_surfaceArea_def Math_PI_def Let_def
      power2_eq_square power3_eq_cube algebra_simps)

text \<open>
  C3. For each of the four shapes and every radius and height, the crew capacity is the floor of
  the volume divided by 20. For the cylinder with radius 10 and height 15 it is 235, the
  volume rounds to 4712 and the surface area to 1571.
\<close>

theorem crewCapacity_floor:
  "(s \<in> {''cylinder'', ''sphere'', ''cube'', ''torus''} \<and> currentShape st = Some s \<and>
    currentRadius st = Some (Num r) \<and> currentHeight st = Some (Num h) \<longrightarrow>
      (\<exists>v. habitat_volume st = Some (Num v) \<and> crewCapacity st = Num (of_int \<lfloor>v / 20\<rfloor>))) \<and>
   crewCapacity (st\<lparr>currentShape := Some ''cylinder'', currentRadius := Some (Num 10),
      currentHeight := Some (Num 15)\<rparr>) = Num 235 \<and>
   Math_round (ToNumber (habitat_volume (st\<lparr>currentShape := Some ''cylinder'',
      currentRadius := Some (Num 10), currentHeight := Some (Num 15)\<rparr>))) = Num 4712 \<and>
   Math_round (ToNumber (habitat_surfaceArea (st\<lparr>currentShape := Some ''cylinder'',
      currentRadius := Some (Num 10), currentHeight := Some (Num 15)\<rparr>))) = Num 1571"
proof -
  let ?st = "st\<lparr>currentShape := Some ''cylinder'', currentRadius := Some (Num 10),
      currentHeight := Some (Num 15)\<rparr>"
  have v: "habitat_volume ?st = Some (Num (pi * 10 * 10 * 15))"
    by (simp add: habitat_volume_def Math_PI_def)
  have a: "habitat_surfaceArea ?st = Some (Num (2 * pi * 10 * 15 + 2 * pi * 10 * 10))"
    by (simp add: habitat_surfaceArea_def Math_PI_def)
  have c: "crewCapacity ?st = Num 235"
    unfolding crewCapacity_of_volume[OF v] floor_crew by simp
  have rv: "Math_round (ToNumber (habitat_volume ?st)) = Num 4712"
    unfolding v ToNumber.simps Math_round.simps round_volume by simp
  have ra: "Math_round (ToNumber (habitat_surfaceArea ?st)) = Num 1571"
    unfolding a ToNumber.simps Math_round.simps round_surface by simp
  have g: "\<exists>v. habitat_volume st = Some (Num v) \<and> crewCapacity st = Num (of_int \<lfloor>v / 20\<rfloor>)"
    if "s \<in> {''cylinder'', ''sphere'', ''cube'', ''torus''}" "currentShape st = Some s"
      "currentRadius st = Some (Num r)" "currentHeight st = Some (Num h)"
    using habitat_volume_number[OF that] crewCapacity_of_volume by blast
  from g c rv ra show ?thesis by blast
qed

theorem crewCapacity_floor_witness:
  "crewCapacity (new_designer (page_with [])) = Num (of_int \<lfloor>pi * 10 * 10 * 15 / 20\<rfloor>)"
proof -
  let ?st = "new_designer (page_with [])"
  have h: "''cylinder'' \<in> {''cylinder'', ''sphere'', ''cube'', ''torus''} \<and>
      currentShape ?st = Some ''cylinder'' \<and>
      currentRadius ?st = Some (Num 10) \<and> currentHeight ?st = Some (Num 15)"
    by (simp add: new_designer_def)
  from crewCapacity_floor[of "''cylinder''" ?st 10 15] h
  obtain v where v: "habitat_volume ?st = Some (Num v)"
    and c: "crewCapacity ?st = Num (of_int \<lfloor>v / 20\<rfloor>)" by blast
  have "habitat_volume ?st = Some (Num (pi * 10 * 10 * 15))"
    by (simp add: habitat_volume_def Math_PI_def new_designer_def)
  with v have "v = pi * 10 * 10 * 15" by simp
  with c show ?thesis by simp
qed

section \<open>Saving and loading\<close>

text \<open>
  C4. Loading the layout object that \<open>saveLayout\<close> builds from a designer with one of the
  four known shapes \<open>s\<close>, radius \<open>r\<close>, height \<open>h\<close> and enabled systems \<open>sys\<close>, into any
  designer whose page has the elements of \<open>page_ids\<close>, completes and gives shape \<open>s\<close>,
  radius \<open>r\<close>, height \<open>h\<close> and the same set of enabled systems; the timestamp plays no part.
\<close>

theorem save_load_round_trip:
  assumes page0: "has_elements page_ids st0"
    and known: "s \<in> {''cylinder'', ''sphere'', ''cube'', ''torus''}"
    and shape: "currentShape st = Some s"
    and rad: "currentRadius st = Some (Num r)" and hei: "currentHeight st = Some (Num h)"
    and en: "getEnabledSystems st = Inr sys"
  shows "\<exists>lay st' sys'. saveLayout now st = Inr lay \<and>
     loadLayoutData rnd (JValue lay) st0 = (Inr (), st') \<and>
     currentShape st' = Some s \<and> currentRadius st' = Some (Num r) \<and>
     currentHeight st' = Some (Num h) \<and>
     getEnabledSystems st' = Inr sys' \<and> set sys' = set sys"
proof -
  let ?lay = "\<lparr>layout_shape = Some s, layout_radius = Some (Num r), layout_height = Some (Num h),
      layout_systems = Some sys, layout_timestamp = Some now\<rparr>"
  have save: "saveLayout now st = Inr ?lay"
    by (simp add: saveLayout_def en shape rad hei)
  have sys: "layout_systems ?lay = Some sys" by simp
  have sh: "layout_shape ?lay = Some s" by simp
  from loadLayoutData_ok[OF page0 sys sh known, of rnd] obtain st'
    where run: "loadLayoutData rnd (JValue ?lay) st0 = (Inr (), st')"
      and f: "currentShape st' = Some s" "currentRadius st' = Some (Num r)"
        "currentHeight st' = Some (Num h)"
      and en': "getEnabledSystems st' = Inr (filter (\<lambda>i. i \<in> set sys) systemIds)"
    by auto
  have "set (filter (\<lambda>i. i \<in> set sys) systemIds) = set sys"
    using enabled_subset_ids[OF en] by auto
  with save run f en' show ?thesis by blast
qed

theorem save_load_round_trip_witness:
  "saveLayout ''2024-01-01T00:00:00.000Z''
     (new_designer (page_with [''power'', ''medical''])
        \<lparr>currentShape := Some ''sphere'', currentRadius := Some (Num 12),
         currentHeight := Some (Num 5)\<rparr>)
     = Inr \<lparr>layout_shape = Some ''sphere'', layout_radius = Some (Num 12),
            layout_height = Some (Num 5), layout_systems = Some [''power'', ''medical''],
            layout_timestamp = Some ''2024-01-01T00:00:00.000Z''\<rparr> \<and>
   fst (loadLayoutData (\<lambda>_. 0)
     (JValue \<lparr>layout_shape = Some ''sphere'', layout_radius = Some (Num 12),
            layout_height = Some (Num 5), layout_systems = Some [''power'', ''medical''],
            layout_timestamp = Some ''2024-01-01T00:00:00.000Z''\<rparr>)
     (new_designer (page_with []))) = Inr () \<and>
   currentShape (snd (loadLayoutData (\<lambda>_. 0)
     (JValue \<lparr>layout_shape = Some ''sphere'', layout_radius = Some (Num 12),
            layout_height = Some (Num 5), layout_systems = Some [''power'', ''medical''],
            layout_timestamp = Some ''2024-01-01T00:00:00.000Z''\<rparr>)
     (new_designer (page_with [])))) = Some ''sphere'' \<and>
   currentRadius (snd (loadLayoutData (\<lambda>_. 0)
     (JValue \<lparr>layout_shape = Some ''sphere'', layout_radius = Some (Num 12),
            layout_height = Some (Num 5), layout_systems = Some [''power'', ''medical''],
            layout_timestamp = Some ''2024-01-01T00:00:00.000Z''\<rparr>)
     (new_designer (page_with [])))) = Some (Num 12) \<and>
   currentHeight (snd (loadLayoutData (\<lambda>_. 0)
     (JValue \<lparr>layout_shape = Some ''sphere'', layout_radius = Some (Num 12),
            layout_height = Some (Num 5), layout_systems = Some [''power'', ''medical''],
            layout_timestamp = Some ''2024-01-01T00:00:00.000Z''\<rparr>)
     (new_designer (page_with [])))) = Some (Num 5) \<and>
   getEnabledSystems (snd (loadLayoutData (\<lambda>_. 0)
     (JValue \<lparr>layout_shape = Some ''sphere'', layout_radius = Some (Num 12),
            layout_height = Some (Num 5), layout_systems = Some [''power'', ''medical''],
            layout_timestamp = Some ''2024-01-01T00:00:00.000Z''\<rparr>)
     (new_designer (page_with [])))) = Inr [''power'', ''medical'']"
proof -
  let ?st = "new_designer (page_with [''power'', ''medical''])
        \<lparr>currentShape := Some ''sphere'', currentRadius := Some (Num 12),
         currentHeight := Some (Num 5)\<rparr>"
  let ?lay = "\<lparr>layout_shape = Some ''sphere'', layout_radius = Some (Num 12),
            layout_height = Some (Num 5), layout_systems = Some [''power'', ''medical''],
            layout_timestamp = Some ''2024-01-01T00:00:00.000Z''\<rparr>"
  have d: "document ?st = page_with [''power'', ''medical'']" by (simp add: new_designer_def)
  have en: "getEnabledSystems ?st = Inr [''power'', ''medical'']"
    using getEnabledSystems_page_with[OF d] by (simp add: systemIds_def)
  have known: "''sphere'' \<in> {''cylinder'', ''sphere'', ''cube'', ''torus''}" by simp
  have shape: "currentShape ?st = Some ''sphere''" by simp
  have rad: "currentRadius ?st = Some (Num 12)" by simp
  have hei: "currentHeight ?st = Some (Num 5)" by simp
  from save_load_round_trip[OF page_with_new_designer(1)[of "[]"] known shape rad hei en,
      of "''2024-01-01T00:00:00.000Z''" "\<lambda>_. 0"]
  obtain lay st' sys' where save: "saveLayout ''2024-01-01T00:00:00.000Z'' ?st = Inr lay"
    and run: "loadLayoutData (\<lambda>_. 0) (JValue lay) (new_designer (page_with [])) = (Inr (), st')"
    and f: "currentShape st' = Some ''sphere''" "currentRadius st' = Some (Num 12)"
      "currentHeight st' = Some (Num 5)"
    and en': "getEnabledSystems st' = Inr sys'"
    by blast
  have lay: "saveLayout ''2024-01-01T00:00:00.000Z'' ?st = Inr ?lay"
    by (simp add: saveLayout_def en)
  with save have l: "lay = ?lay" by simp
  have sys: "layout_systems ?lay = Some [''power'', ''medical'']" by simp
  have sh: "layout_shape ?lay = Some ''sphere''" by simp
  from loadLayoutData_ok[OF page_with_new_designer(1)[of "[]"] sys sh known, of "\<lambda>_. 0"] run l
  have "getEnabledSystems st' = Inr (filter (\<lambda>i. i \<in> set [''power'', ''medical'']) systemIds)"
    by auto
  then have e: "getEnabledSystems st' = Inr [''power'', ''medical'']"
    by (simp add: systemIds_def)
  from lay run l f e show ?thesis by simp
qed

text \<open>
  C9. Loading a layout object whose \<open>systems\<close> is an array and whose shape is one of the
  four known shapes completes without an error, whatever strings the array holds, and the
  enabled systems afterwards are exactly the known ids that occur in the array: unknown
  ids are ignored. (A shape outside the four makes \<open>createHabitat\<close> throw, see
  \<open>createHabitat_throws\<close>; that error does not come from the array.)
\<close>

theorem load_ignores_unknown_systems:
  assumes page: "has_elements page_ids st" and sys: "layout_systems lay = Some xs"
    and shape: "layout_shape lay = Some s"
    and known: "s \<in> {''cylinder'', ''sphere'', ''cube'', ''torus''}"
  shows "\<exists>st' en. loadLayoutData rnd (JValue lay) st = (Inr (), st') \<and>
     getEnabledSystems st' = Inr en \<and> set en = set xs \<inter> set systemIds"
proof -
  from loadLayoutData_ok[OF page sys shape known, of rnd] obtain st'
    where "loadLayoutData rnd (JValue lay) st = (Inr (), st')"
      and "getEnabledSystems st' = Inr (filter (\<lambda>i. i \<in> set xs) systemIds)"
    by blast
  moreover have "set (filter (\<lambda>i. i \<in> set xs) systemIds) = set xs \<inter> set systemIds"
    by auto
  ultimately show ?thesis by blast
qed

theorem load_ignores_unknown_systems_witness:
  "fst (loadLayoutData (\<lambda>_. 0)
      (JValue \<lparr>layout_shape = Some ''cube'', layout_radius = Some (Num 8), layout_height = Some (Num 6),
               layout_systems = Some [''warp-drive'', ''power'', ''holodeck''],
               layout_timestamp = Some ''2024-01-01T00:00:00.000Z''\<rparr>)
      (new_designer (page_with [''sleep'']))) = Inr () \<and>
   getEnabledSystems (snd (loadLayoutData (\<lambda>_. 0)
      (JValue \<lparr>layout_shape = Some ''cube'', layout_radius = Some (Num 8), layout_height = Some (Num 6),
               layout_systems = Some [''warp-drive'', ''power'', ''holodeck''],
               layout_timestamp = Some ''2024-01-01T00:00:00.000Z''\<rparr>)
      (new_designer (page_with [''sleep''])))) = Inr [''power'']"
proof -
  let ?lay = "\<lparr>layout_shape = Some ''cube'', layout_radius = Some (Num 8), layout_height = Some (Num 6),
               layout_systems = Some [''warp-drive'', ''power'', ''holodeck''],
               layout_timestamp = Some ''2024-01-01T00:00:00.000Z''\<rparr>"
  have sys: "layout_systems ?lay = Some [''warp-drive'', ''power'', ''holodeck'']" by simp
  have sh: "layout_shape ?lay = Some ''cube''" by simp
  have known: "''cube'' \<in> {''cylinder'', ''sphere'', ''cube'', ''torus''}" by simp
  from load_ignores_unknown_systems[OF page_with_new_designer(1)[of "[''sleep'']"] sys sh known,
      of "\<lambda>_. 0"]
  obtain st' en where run: "loadLayoutData (\<lambda>_. 0) (JValue ?lay) (new_designer (page_with [''sleep''])) = (Inr (), st')"
    and en: "getEnabledSystems st' = Inr en"
    and s: "set en = set [''warp-drive'', ''power'', ''holodeck''] \<inter> set systemIds"
    by blast
  from loadLayoutData_ok[OF page_with_new_designer(1)[of "[''sleep'']"] sys sh known, of "\<lambda>_. 0"] run
  have "getEnabledSystems st' = Inr (filter (\<lambda>i. i \<in> set [''warp-drive'', ''power'', ''holodeck'']) systemIds)"
    by auto
  then have "en = [''power'']"
    using en by (simp add: systemIds_def)
  with run en show ?thesis by simp
qed

text \<open>
  C5 (amended). For a text that is not valid structured data, that is, a text that
  \<^verbatim>\<open>JSON.parse\<close> rejects, the load shows the error in an alert and leaves the designer
  unchanged: its shape, radius, height, placements and page, and so its enabled systems.
\<close>

theorem load_rejects_unparseable:
  "JSON_parse text = None \<longrightarrow>
     loadLayout_onload JSON_parse rnd text st = (Some SyntaxError, st) \<and>
     currentShape (snd (loadLayout_onload JSON_parse rnd text st)) = currentShape st \<and>
     currentRadius (snd (loadLayout_onload JSON_parse rnd text st)) = currentRadius st \<and>
     currentHeight (snd (loadLayout_onload JSON_parse rnd text st)) = currentHeight st \<and>
     systems (snd (loadLayout_onload JSON_parse rnd text st)) = systems st \<and>
     getEnabledSystems (snd (loadLayout_onload JSON_parse rnd text st)) = getEnabledSystems st"
proof
  assume "JSON_parse text = None"
  then have run: "loadLayout_onload JSON_parse rnd text st = (Some SyntaxError, st)"
    by (simp add: loadLayout_onload_def)
  then show "loadLayout_onload JSON_parse rnd text st = (Some SyntaxError, st) \<and>
     currentShape (snd (loadLayout_onload JSON_parse rnd text st)) = currentShape st \<and>
     currentRadius (snd (loadLayout_onload JSON_parse rnd text st)) = currentRadius st \<and>
     currentHeight (snd (loadLayout_onload JSON_parse rnd text st)) = currentHeight st \<and>
     systems (snd (loadLayout_onload JSON_parse rnd text st)) = systems st \<and>
     getEnabledSystems (snd (loadLayout_onload JSON_parse rnd text st)) = getEnabledSystems st"
    by simp
qed

theorem load_rejects_unparseable_witness:
  "loadLayout_onload (\<lambda>t. if t = ''null'' then Some JNull else None) (\<lambda>_. 0) ''not json''
      (new_designer (page_with [''power'']))
     = (Some SyntaxError, new_designer (page_with [''power'']))"
  using load_rejects_unparseable[of "\<lambda>t. if t = ''null'' then Some JNull else None" "''not json''"
      "\<lambda>_. 0" "new_designer (page_with [''power''])"]
  by simp

text \<open>
  C5 as stated fails for a parseable document that lacks a field, since no field is
  checked before the document is applied. For the object with shape sphere, radius 12,
  height 5 and no \<open>systems\<close>, the alert shows a \<open>TypeError\<close> but the shape of the designer
  has already changed from cylinder to sphere. For the object with shape sphere, height 5,
  systems power and no \<open>radius\<close>, no error is raised at all and the radius of the designer
  becomes \<open>undefined\<close>.
\<close>

theorem load_missing_field_changes_state:
  "fst (loadLayout_onload
      (\<lambda>_. Some (JValue \<lparr>layout_shape = Some ''sphere'', layout_radius = Some (Num 12),
          layout_height = Some (Num 5), layout_systems = None, layout_timestamp = None\<rparr>))
      (\<lambda>_. 0) ''file text'' (new_designer (page_with []))) = Some TypeError \<and>
   currentShape (snd (loadLayout_onload
      (\<lambda>_. Some (JValue \<lparr>layout_shape = Some ''sphere'', layout_radius = Some (Num 12),
          layout_height = Some (Num 5), layout_systems = None, layout_timestamp = None\<rparr>))
      (\<lambda>_. 0) ''file text'' (new_designer (page_with [])))) = Some ''sphere'' \<and>
   currentShape (new_designer (page_with [])) = Some ''cylinder'' \<and>
   fst (loadLayout_onload
      (\<lambda>_. Some (JValue \<lparr>layout_shape = Some ''sphere'', layout_radius = None,
          layout_height = Some (Num 5), layout_systems = Some [''power''], layout_timestamp = None\<rparr>))
      (\<lambda>_. 0) ''file text'' (new_designer (page_with []))) = None \<and>
   currentRadius (snd (loadLayout_onload
      (\<lambda>_. Some (JValue \<lparr>layout_shape = Some ''sphere'', layout_radius = None,
          layout_height = Some (Num 5), layout_systems = Some [''power''], layout_timestamp = None\<rparr>))
      (\<lambda>_. 0) ''file text'' (new_designer (page_with [])))) = None \<and>
   currentRadius (new_designer (page_with [])) = Some (Num 10)"
proof -
  let ?l1 = "\<lparr>layout_shape = Some ''sphere'', layout_radius = Some (Num 12),
          layout_height = Some (Num 5), layout_systems = None, layout_timestamp = None\<rparr>"
  let ?l2 = "\<lparr>layout_shape = Some ''sphere'', layout_radius = None,
          layout_height = Some (Num 5), layout_systems = Some [''power''], layout_timestamp = None\<rparr>"
  have s1: "layout_systems ?l1 = None" by simp
  have s2: "layout_systems ?l2 = Some [''power'']" by simp
  have sh2: "layout_shape ?l2 = Some ''sphere''" by simp
  have known: "''sphere'' \<in> {''cylinder'', ''sphere'', ''cube'', ''torus''}" by simp
  from loadLayoutData_no_systems[OF page_with_new_designer(1)[of "[]"] s1, of "\<lambda>_. 0"]
  obtain st1 where a: "loadLayoutData (\<lambda>_. 0) (JValue ?l1) (new_designer (page_with [])) = (Inl TypeError, st1)"
    and b: "currentShape st1 = Some ''sphere''"
    by auto
  from loadLayoutData_ok[OF page_with_new_designer(1)[of "[]"] s2 sh2 known, of "\<lambda>_. 0"]
  obtain st2 where c: "loadLayoutData (\<lambda>_. 0) (JValue ?l2) (new_designer (page_with [])) = (Inr (), st2)"
    and d: "currentRadius st2 = None"
    by auto
  have e: "currentShape (new_designer (page_with [])) = Some ''cylinder''"
    "currentRadius (new_designer (page_with [])) = Some (Num 10)"
    by (simp_all add: new_designer_def)
  show ?thesis
    unfolding loadLayout_onload_def option.case a c using b d e by simp
qed

end
